theory Spec2Isabelle
  imports Complex_Main
begin

section \<open>JavaScript numbers\<close>

text \<open>
  The server computes with JavaScript numbers. They are modelled as exact rationals
  extended with the three special values of the language: the two infinities and NaN.
  What the model keeps: division by zero does not raise, it yields an infinity or NaN;
  NaN spreads through every operation; every comparison with NaN is false. The
  operations of this section are exact. The rounding of binary64 after each operation
  and overflow are added in the section on binary64 arithmetic below, and the
  properties that depend on the rounding are stated on the calculation given there.
  The sign of zero is left out. The distance and the duration of a route arrive as
  JSON numbers.
\<close>

datatype jsnum = Num rat | PosInf | NegInf | NaN

fun js_neg :: "jsnum \<Rightarrow> jsnum" where
  "js_neg (Num a) = Num (- a)"
| "js_neg PosInf = NegInf"
| "js_neg NegInf = PosInf"
| "js_neg NaN = NaN"

fun js_add :: "jsnum \<Rightarrow> jsnum \<Rightarrow> jsnum" where
  "js_add (Num a) (Num b) = Num (a + b)"
| "js_add NaN y = NaN"
| "js_add x NaN = NaN"
| "js_add PosInf NegInf = NaN"
| "js_add NegInf PosInf = NaN"
| "js_add PosInf y = PosInf"
| "js_add NegInf y = NegInf"
| "js_add (Num a) y = y"

definition js_sub :: "jsnum \<Rightarrow> jsnum \<Rightarrow> jsnum" where
  "js_sub x y = js_add x (js_neg y)"

fun js_sign :: "jsnum \<Rightarrow> int" where
  "js_sign (Num a) = (if a < 0 then - 1 else if a = 0 then 0 else 1)"
| "js_sign PosInf = 1"
| "js_sign NegInf = - 1"
| "js_sign NaN = 0"

definition signed_inf :: "int \<Rightarrow> jsnum" where
  "signed_inf s = (if s = 0 then NaN else if 0 < s then PosInf else NegInf)"

fun js_mul :: "jsnum \<Rightarrow> jsnum \<Rightarrow> jsnum" where
  "js_mul (Num a) (Num b) = Num (a * b)"
| "js_mul NaN y = NaN"
| "js_mul x NaN = NaN"
| "js_mul x y = signed_inf (js_sign x * js_sign y)"

text \<open>
  Division: a finite number divided by zero is an infinity with the sign of the
  numerator, and \<open>0 / 0\<close> is NaN (the zero is taken as positive).
\<close>

fun js_div :: "jsnum \<Rightarrow> jsnum \<Rightarrow> jsnum" where
  "js_div (Num a) (Num b) = (if b = 0 then signed_inf (js_sign (Num a)) else Num (a / b))"
| "js_div NaN y = NaN"
| "js_div x NaN = NaN"
| "js_div (Num a) y = Num 0"
| "js_div x (Num b) = signed_inf (js_sign x * (if b < 0 then - 1 else 1))"
| "js_div x y = NaN"

fun js_lt :: "jsnum \<Rightarrow> jsnum \<Rightarrow> bool" where
  "js_lt (Num a) (Num b) = (a < b)"
| "js_lt NaN y = False"
| "js_lt x NaN = False"
| "js_lt NegInf NegInf = False"
| "js_lt NegInf y = True"
| "js_lt x PosInf = (x \<noteq> PosInf)"
| "js_lt x y = False"

definition js_gt :: "jsnum \<Rightarrow> jsnum \<Rightarrow> bool" where
  "js_gt x y = js_lt y x"

fun finite_num :: "jsnum \<Rightarrow> bool" where
  "finite_num (Num a) = True"
| "finite_num x = False"

text \<open>\<open>Math.round\<close>: the nearest integer, a tie going up.\<close>

fun Math_round :: "jsnum \<Rightarrow> jsnum" where
  "Math_round (Num a) = Num (of_int \<lfloor>a + 1 / 2\<rfloor>)"
| "Math_round x = x"

section \<open>Number to string and back\<close>

definition digit_char :: "nat \<Rightarrow> char" where
  "digit_char d = char_of (48 + d)"

definition is_digit :: "char \<Rightarrow> bool" where
  "is_digit c = (48 \<le> (of_char c :: nat) \<and> (of_char c :: nat) \<le> 57)"

definition digit_val :: "char \<Rightarrow> nat" where
  "digit_val c = of_char c - 48"

fun dec_str :: "nat \<Rightarrow> string" where
  "dec_str n = (if n < 10 then [digit_char n] else dec_str (n div 10) @ [digit_char (n mod 10)])"

declare dec_str.simps [simp del]

definition dec_val :: "string \<Rightarrow> nat" where
  "dec_val s = foldl (\<lambda>a c. 10 * a + digit_val c) 0 s"

text \<open>
  \<open>Number.prototype.toFixed\<close>, following the steps of the language standard: the
  sign is split off, \<open>n\<close> is the integer for which \<open>n / 10^f\<close> is nearest to the
  number (the larger one on a tie), its digits are padded with zeros to \<open>f + 1\<close>
  characters and the point is put \<open>f\<close> places from the right. From \<open>10^21\<close> on,
  JavaScript prints exponent notation instead (\<open>1e+21\<close>); this function prints fixed
  notation there too, which reads back as the same number, and \<open>toFixed64\<close> below
  prints the exponent notation.
\<close>

definition fixed_digits :: "nat \<Rightarrow> rat \<Rightarrow> string" where
  "fixed_digits f y =
     (let n = nat \<lfloor>y * 10 ^ f + 1 / 2\<rfloor>;
          m = dec_str n
      in if f = 0 then m
         else (let m' = replicate (f + 1 - length m) (CHR ''0'') @ m;
                   k = length m'
               in take (k - f) m' @ ''.'' @ drop (k - f) m'))"

fun toFixed :: "nat \<Rightarrow> jsnum \<Rightarrow> string" where
  "toFixed f (Num a) = (if a < 0 then ''-'' @ fixed_digits f (- a) else fixed_digits f a)"
| "toFixed f PosInf = ''Infinity''"
| "toFixed f NegInf = ''-Infinity''"
| "toFixed f NaN = ''NaN''"

text \<open>
  \<open>parseFloat\<close>: leading blanks are skipped, then an optional sign, then either
  \<open>Infinity\<close> or the longest prefix of the shape digits, point, digits; what follows is
  ignored, and a string with no such prefix gives NaN. An exponent part is not read
  (\<open>parseFloat64\<close> below reads it): no string that \<open>toFixed\<close> prints has one.
\<close>

definition parseFloat :: "string \<Rightarrow> jsnum" where
  "parseFloat s =
     (let s1 = dropWhile (\<lambda>c. c = CHR '' '') s;
          neg = (case s1 of c # r \<Rightarrow> c = CHR ''-'' | [] \<Rightarrow> False);
          s2 = (case s1 of c # r \<Rightarrow> if c = CHR ''-'' \<or> c = CHR ''+'' then r else s1 | [] \<Rightarrow> s1)
      in if take 8 s2 = ''Infinity'' then (if neg then NegInf else PosInf)
         else (let ip = takeWhile is_digit s2;
                   r = dropWhile is_digit s2;
                   fp = (case r of c # t \<Rightarrow> if c = CHR ''.'' then takeWhile is_digit t else [] | [] \<Rightarrow> [])
               in if ip = [] \<and> fp = [] then NaN
                  else (let v = of_nat (dec_val (ip @ fp)) / 10 ^ length fp
                        in Num (if neg then - v else v))))"

text \<open>
  \<open>parseInt\<close> with no radix, as the page applies it to \<open>fuelCost\<close>
  (\<open>frontend/script.js\<close>, line 169): blanks, an optional sign, then the longest prefix
  of digits. A prefix \<open>0x\<close> would select base 16; no string of this model has one.
\<close>

definition parseInt :: "string \<Rightarrow> jsnum" where
  "parseInt s =
     (let s1 = dropWhile (\<lambda>c. c = CHR '' '') s;
          neg = (case s1 of c # r \<Rightarrow> c = CHR ''-'' | [] \<Rightarrow> False);
          s2 = (case s1 of c # r \<Rightarrow> if c = CHR ''-'' \<or> c = CHR ''+'' then r else s1 | [] \<Rightarrow> s1);
          ds = takeWhile is_digit s2
      in if ds = [] then NaN
         else Num (if neg then - of_nat (dec_val ds) else of_nat (dec_val ds)))"

text \<open>
  The number a \<open>toFixed\<close> string with \<open>f\<close> decimals stands for: the nearest multiple
  of \<open>10^-f\<close>, a tie going away from zero.
\<close>

definition round_at :: "nat \<Rightarrow> rat \<Rightarrow> rat" where
  "round_at f a =
     (if a < 0 then - (of_int \<lfloor>- a * 10 ^ f + 1 / 2\<rfloor> / 10 ^ f)
      else of_int \<lfloor>a * 10 ^ f + 1 / 2\<rfloor> / 10 ^ f)"

text \<open>
  A decimal string: an optional minus sign, one or more digits, and optionally a point
  followed by one or more digits.
\<close>

definition is_decimal :: "string \<Rightarrow> bool" where
  "is_decimal s =
     (let t = (case s of c # r \<Rightarrow> if c = CHR ''-'' then r else s | [] \<Rightarrow> s);
          ip = takeWhile is_digit t;
          r = dropWhile is_digit t
      in ip \<noteq> [] \<and>
         (case r of [] \<Rightarrow> True | c # fp \<Rightarrow> c = CHR ''.'' \<and> fp \<noteq> [] \<and> list_all is_digit fp))"

section \<open>Objects and property reads\<close>

text \<open>
  An object is the list of its own properties, in the order the source writes them.
  Reading a property that the object does not own goes on to \<open>Object.prototype\<close>,
  which every object literal inherits from: the names below are its members (functions,
  and for \<open>__proto__\<close> the prototype object itself), all of them truthy and none of
  them carrying a property of this program. Any other name reads as \<open>undefined\<close>.
\<close>

datatype 'v lookup = Own 'v | Inherited string | Undefined

definition Object_prototype :: "string list" where
  "Object_prototype =
     [''constructor'', ''__defineGetter__'', ''__defineSetter__'', ''hasOwnProperty'',
      ''__lookupGetter__'', ''__lookupSetter__'', ''isPrototypeOf'', ''propertyIsEnumerable'',
      ''toString'', ''valueOf'', ''__proto__'', ''toLocaleString'']"

definition get_prop :: "(string \<times> 'v) list \<Rightarrow> string \<Rightarrow> 'v lookup" where
  "get_prop obj k =
     (case map_of obj k of
        Some v \<Rightarrow> Own v
      | None \<Rightarrow> if k \<in> set Object_prototype then Inherited k else Undefined)"

section \<open>Vehicle data\<close>

record vehicle =
  baseConsumption :: rat
  optimalSpeed :: rat
  dragFactor :: rat

definition motorbike :: vehicle where
  "motorbike = \<lparr>baseConsumption = 5 / 2, optimalSpeed = 50, dragFactor = 1 / 20\<rparr>"

definition car :: vehicle where
  "car = \<lparr>baseConsumption = 7, optimalSpeed = 80, dragFactor = 1 / 10\<rparr>"

definition truck :: vehicle where
  "truck = \<lparr>baseConsumption = 15, optimalSpeed = 70, dragFactor = 1 / 5\<rparr>"

definition VEHICLES :: "(string \<times> vehicle) list" where
  "VEHICLES = [(''motorbike'', motorbike), (''car'', car), (''truck'', truck)]"

text \<open>
  \<open>VEHICLES[vehicleType] || VEHICLES.car\<close>: the right operand is taken only when the
  left one is \<open>undefined\<close>; a profile and an inherited member are both truthy.
\<close>

definition vehicle_for :: "string \<Rightarrow> vehicle lookup" where
  "vehicle_for vehicleType =
     (case get_prop VEHICLES vehicleType of
        Undefined \<Rightarrow> get_prop VEHICLES ''car''
      | v \<Rightarrow> v)"

text \<open>
  \<open>vehicle.optimalSpeed\<close> and \<open>vehicle.baseConsumption\<close> as the arithmetic sees them:
  on an inherited member the property is \<open>undefined\<close>, which \<open><\<close>, \<open>-\<close> and
  \<open>*\<close> convert to NaN. The vehicle itself is never \<open>undefined\<close>, since \<open>car\<close> is an
  own property of \<open>VEHICLES\<close>.
\<close>

fun optimalSpeed_of :: "vehicle lookup \<Rightarrow> jsnum" where
  "optimalSpeed_of (Own v) = Num (optimalSpeed v)"
| "optimalSpeed_of p = NaN"

fun baseConsumption_of :: "vehicle lookup \<Rightarrow> jsnum" where
  "baseConsumption_of (Own v) = Num (baseConsumption v)"
| "baseConsumption_of p = NaN"

section \<open>Fuel calculation\<close>

record 'g route =
  distance :: rat
  duration :: rat
  geometry :: 'g

record fuelStats =
  fuelUsed :: jsnum
  avgSpeed :: jsnum
  efficiencyFactor :: jsnum

text \<open>
  \<open>calculateFuel\<close> (\<open>backend/server.js\<close>, lines 69 to 105), in the order of the
  source: the average speed with its guard against a zero duration, the efficiency
  factor, the fuel volume, and the rounded result.
\<close>

definition distanceKm_of :: "'g route \<Rightarrow> jsnum" where
  "distanceKm_of route = js_div (Num (distance route)) (Num 1000)"

definition avgSpeed_of :: "'g route \<Rightarrow> jsnum" where
  "avgSpeed_of route =
     (let distanceKm = distanceKm_of route;
          durationHr = js_div (Num (duration route)) (Num 3600)
      in if js_gt durationHr (Num 0) then js_div distanceKm durationHr else Num 0)"

text \<open>
  The two branches of the efficiency factor: the traffic penalty below the optimal speed
  and the highway penalty from it on. Both start from \<open>efficiencyFactor = 1.0\<close>.
\<close>

definition trafficFactor :: "jsnum \<Rightarrow> jsnum \<Rightarrow> jsnum" where
  "trafficFactor optimal speed =
     (let speedDiff = js_sub optimal speed
      in js_add (Num 1) (js_mul (js_div speedDiff (Num 20)) (Num (1 / 5))))"

definition highwayFactor :: "jsnum \<Rightarrow> jsnum \<Rightarrow> jsnum" where
  "highwayFactor optimal speed =
     (let speedDiff = js_sub speed optimal
      in js_add (Num 1) (js_mul (js_div speedDiff (Num 30)) (Num (1 / 10))))"

definition efficiency :: "vehicle lookup \<Rightarrow> jsnum \<Rightarrow> jsnum" where
  "efficiency vehicle speed =
     (if js_lt speed (optimalSpeed_of vehicle)
      then trafficFactor (optimalSpeed_of vehicle) speed
      else highwayFactor (optimalSpeed_of vehicle) speed)"

definition rawFuelUsed :: "vehicle lookup \<Rightarrow> 'g route \<Rightarrow> jsnum" where
  "rawFuelUsed vehicle route =
     js_mul (js_mul (js_div (distanceKm_of route) (Num 100)) (baseConsumption_of vehicle))
       (efficiency vehicle (avgSpeed_of route))"

definition calculateFuel :: "'g route \<Rightarrow> string \<Rightarrow> fuelStats" where
  "calculateFuel route vehicleType =
     (let vehicle = vehicle_for vehicleType
      in \<lparr>fuelUsed = parseFloat (toFixed 2 (rawFuelUsed vehicle route)),
          avgSpeed = Math_round (avgSpeed_of route),
          efficiencyFactor = parseFloat (toFixed 2 (efficiency vehicle (avgSpeed_of route)))\<rparr>)"

section \<open>The route endpoint\<close>

text \<open>
  The values a property of a processed route can have: numbers, strings, booleans, the
  geometry (an object that is passed through unread), an inherited member of
  \<open>Object.prototype\<close>, and \<open>undefined\<close>.
\<close>

datatype 'g jsval =
  JNum jsnum | JStr string | JBool bool | JOpaque 'g | JInherited string | JUndefined

type_synonym 'g jsobject = "(string \<times> 'g jsval) list"

fun typeof :: "'g jsval \<Rightarrow> string" where
  "typeof (JNum x) = ''number''"
| "typeof (JStr s) = ''string''"
| "typeof (JBool b) = ''boolean''"
| "typeof (JOpaque g) = ''object''"
| "typeof (JInherited n) = (if n = ''__proto__'' then ''object'' else ''function'')"
| "typeof JUndefined = ''undefined''"

text \<open>\<open>fuelPrice || 0\<close>: a missing or null price counts as zero.\<close>

definition price_or_zero :: "rat option \<Rightarrow> jsnum" where
  "price_or_zero fuelPrice = (case fuelPrice of None \<Rightarrow> Num 0 | Some p \<Rightarrow> Num p)"

text \<open>
  The callback of \<open>routes.map\<close> (lines 158 to 173), on the pair of an index and a route.
\<close>

definition processRoute :: "string \<Rightarrow> rat option \<Rightarrow> nat \<times> 'g route \<Rightarrow> 'g jsobject" where
  "processRoute vehicleType fuelPrice ir =
     (let index = fst ir;
          route = snd ir;
          fuelStats = calculateFuel route vehicleType;
          cost = js_mul (fuelUsed fuelStats) (price_or_zero fuelPrice)
      in [(''id'', JNum (Num (of_nat index))),
          (''geometry'', JOpaque (geometry route)),
          (''distanceKm'', JStr (toFixed 1 (js_div (Num (distance route)) (Num 1000)))),
          (''durationMin'', JStr (toFixed 0 (js_div (Num (duration route)) (Num 60)))),
          (''fuelUsedLiters'', JNum (fuelUsed fuelStats)),
          (''fuelCost'', JStr (toFixed 0 cost)),
          (''avgSpeed'', JNum (avgSpeed fuelStats)),
          (''isFastest'', JBool (index = 0)),
          (''score'', JNum (fuelUsed fuelStats))])"

definition processedRoutes_of :: "string \<Rightarrow> rat option \<Rightarrow> 'g route list \<Rightarrow> 'g jsobject list" where
  "processedRoutes_of vehicleType fuelPrice rs =
     map (processRoute vehicleType fuelPrice) (enumerate 0 rs)"

text \<open>
  A property read as a value, and as the number that \<open>-\<close> makes of it: \<open>undefined\<close>
  and a function become NaN. The conversion of a string or of the geometry is not
  modelled (it is NaN here); the program subtracts \<open>fuelUsedLiters\<close> only, which is a
  number in every processed route.
\<close>

definition read :: "'g jsobject \<Rightarrow> string \<Rightarrow> 'g jsval" where
  "read obj k =
     (case get_prop obj k of Own v \<Rightarrow> v | Inherited n \<Rightarrow> JInherited n | Undefined \<Rightarrow> JUndefined)"

definition read_num :: "'g jsobject \<Rightarrow> string \<Rightarrow> jsnum" where
  "read_num obj k =
     (case read obj k of JNum x \<Rightarrow> x | JBool b \<Rightarrow> Num (if b then 1 else 0) | v \<Rightarrow> NaN)"

definition byFuel :: "'g jsobject \<Rightarrow> 'g jsobject \<Rightarrow> jsnum" where
  "byFuel a b = js_sub (read_num a ''fuelUsedLiters'') (read_num b ''fuelUsedLiters'')"

text \<open>
  \<open>Array.prototype.sort\<close> is stable: \<open>x\<close> stays before a later \<open>y\<close> unless the
  comparator puts it after (a positive result; NaN counts as zero). Insertion from the
  right computes that order.
\<close>

fun insert_by :: "('a \<Rightarrow> 'a \<Rightarrow> jsnum) \<Rightarrow> 'a \<Rightarrow> 'a list \<Rightarrow> 'a list" where
  "insert_by cmp x [] = [x]"
| "insert_by cmp x (y # ys) =
     (if js_gt (cmp x y) (Num 0) then y # insert_by cmp x ys else x # y # ys)"

definition js_sort :: "('a \<Rightarrow> 'a \<Rightarrow> jsnum) \<Rightarrow> 'a list \<Rightarrow> 'a list" where
  "js_sort cmp xs = foldr (insert_by cmp) xs []"

text \<open>
  Arrays live in a store, addressed by position: \<open>sort\<close> changes the array it is
  called on, so it matters which array that is. \<open>alloc\<close> is an array literal, a
  \<open>map\<close> result or a spread copy; \<open>sort_at\<close> is \<open>sort\<close> on the array at an address.
\<close>

type_synonym 'g store = "'g jsobject list list"

definition alloc :: "'g jsobject list \<Rightarrow> 'g store \<Rightarrow> nat \<times> 'g store" where
  "alloc xs h = (length h, h @ [xs])"

definition sort_at :: "('g jsobject \<Rightarrow> 'g jsobject \<Rightarrow> jsnum) \<Rightarrow> nat \<Rightarrow> 'g store \<Rightarrow> 'g store" where
  "sort_at cmp a h = h[a := js_sort cmp (h ! a)]"

datatype js_error = TypeError

datatype 'g response =
  Json200 (routes: "'g jsobject list") (bestFuelRouteId: "'g jsval")
| JsonError nat string

text \<open>
  From the \<open>map\<close> to \<open>res.json\<close> (lines 158 to 184), with the store after each
  statement. \<open>sortedByFuel[0].id\<close> throws when the array is empty.
\<close>

definition rank_store :: "string \<Rightarrow> rat option \<Rightarrow> 'g route list \<Rightarrow> nat \<times> nat \<times> 'g store" where
  "rank_store vehicleType fuelPrice rs =
     (let (processedRoutes, h1) = alloc (processedRoutes_of vehicleType fuelPrice rs) [];
          (sortedByFuel, h2) = alloc (h1 ! processedRoutes) h1;
          h3 = sort_at byFuel sortedByFuel h2
      in (processedRoutes, sortedByFuel, h3))"

definition rank_routes :: "string \<Rightarrow> rat option \<Rightarrow> 'g route list \<Rightarrow> js_error + 'g response" where
  "rank_routes vehicleType fuelPrice rs =
     (let (processedRoutes, sortedByFuel, h) = rank_store vehicleType fuelPrice rs
      in case h ! sortedByFuel of
           [] \<Rightarrow> Inl TypeError
         | best # rest \<Rightarrow> Inr (Json200 (h ! processedRoutes) (read best ''id'')))"

text \<open>
  The endpoint from the answer of the routing service on (lines 154 to 188): \<open>None\<close> is
  an answer with no \<open>routes\<close> member. The \<open>catch\<close> turns an exception into a 500. The coordinates that
  the response also carries are copied from the geocoding step and left out here.
\<close>

definition calculate_route :: "'g route list option \<Rightarrow> string \<Rightarrow> rat option \<Rightarrow> 'g response" where
  "calculate_route osrmRoutes vehicleType fuelPrice =
     (case osrmRoutes of
        None \<Rightarrow> JsonError 404 ''No route found''
      | Some rs \<Rightarrow>
          if length rs = 0 then JsonError 404 ''No route found''
          else (case rank_routes vehicleType fuelPrice rs of
                  Inl e \<Rightarrow> JsonError 500 ''Internal Server Error''
                | Inr r \<Rightarrow> r))"

section \<open>Closed forms for a vehicle profile\<close>

text \<open>
  The values of the calculation as rational expressions, for a vehicle that is a profile.
  They are shown below to be what \<open>calculateFuel\<close> computes, and serve the proofs.
\<close>

definition speed_q :: "'g route \<Rightarrow> rat" where
  "speed_q route =
     (if 0 < duration route then (distance route / 1000) / (duration route / 3600) else 0)"

definition eff_q :: "vehicle \<Rightarrow> rat \<Rightarrow> rat" where
  "eff_q v s =
     (if s < optimalSpeed v then 1 + (optimalSpeed v - s) / 20 * (1 / 5)
      else 1 + (s - optimalSpeed v) / 30 * (1 / 10))"

definition fuel_q :: "vehicle \<Rightarrow> 'g route \<Rightarrow> rat" where
  "fuel_q v route = distance route / 1000 / 100 * baseConsumption v * eff_q v (speed_q route)"

section \<open>Binary64 arithmetic\<close>

text \<open>
  The operations above are exact. JavaScript rounds the result of every operation to
  binary64: the nearest number with a significand of 53 bits, a tie going to the even
  significand, the exponent limited below (subnormal numbers, then zero) and above
  (then an infinity). \<open>fl\<close> is that rounding; a rounded operation is the exact one
  followed by it. The sign of zero is left out.
\<close>

fun bits :: "nat \<Rightarrow> nat" where
  "bits n = (if n = 0 then 0 else Suc (bits (n div 2)))"

declare bits.simps [simp del]

definition pow2 :: "int \<Rightarrow> rat" where
  "pow2 k = (if 0 \<le> k then 2 ^ nat k else 1 / 2 ^ nat (- k))"

text \<open>For \<open>x > 0\<close>, the exponent \<open>e\<close> with \<open>2^e \<le> x < 2^(e+1)\<close>.\<close>

definition ilog2 :: "rat \<Rightarrow> int" where
  "ilog2 x = (if 1 \<le> x then int (bits (nat \<lfloor>x\<rfloor>)) - 1
              else - int (bits (nat (\<lceil>1 / x\<rceil> - 1))))"

definition round_even :: "rat \<Rightarrow> int" where
  "round_even r =
     (let f = \<lfloor>r\<rfloor>; d = r - of_int f
      in if d < 1 / 2 then f else if 1 / 2 < d then f + 1 else if even f then f else f + 1)"

text \<open>The rounded magnitude of a positive number, before the test for overflow.\<close>

definition mag :: "rat \<Rightarrow> rat" where
  "mag a =
     (let e = max (ilog2 a) (- 1022);
          q = pow2 (e - 52)
      in of_int (round_even (a / q)) * q)"

definition fl :: "rat \<Rightarrow> jsnum" where
  "fl x =
     (if x = 0 then Num 0
      else if 0 < x then (if pow2 1024 \<le> mag x then PosInf else Num (mag x))
      else (if pow2 1024 \<le> mag (- x) then NegInf else Num (- mag (- x))))"

fun round64 :: "jsnum \<Rightarrow> jsnum" where
  "round64 (Num a) = fl a"
| "round64 x = x"

definition add64 :: "jsnum \<Rightarrow> jsnum \<Rightarrow> jsnum" where
  "add64 x y = round64 (js_add x y)"

definition sub64 :: "jsnum \<Rightarrow> jsnum \<Rightarrow> jsnum" where
  "sub64 x y = round64 (js_sub x y)"

definition mul64 :: "jsnum \<Rightarrow> jsnum \<Rightarrow> jsnum" where
  "mul64 x y = round64 (js_mul x y)"

definition div64 :: "jsnum \<Rightarrow> jsnum \<Rightarrow> jsnum" where
  "div64 x y = round64 (js_div x y)"

text \<open>\<open><=\<close> on numbers: false when either side is NaN.\<close>

fun js_le :: "jsnum \<Rightarrow> jsnum \<Rightarrow> bool" where
  "js_le (Num a) (Num b) = (a \<le> b)"
| "js_le NaN y = False"
| "js_le x NaN = False"
| "js_le NegInf y = True"
| "js_le x PosInf = True"
| "js_le x y = False"

subsection \<open>Printing and reading in binary64\<close>

text \<open>
  From \<open>10^21\<close> on, \<open>toFixed\<close> returns what \<open>Number::toString\<close> prints: the fewest
  significant digits that read back as the same number (the closest such digits, the
  even ones on a tie), in exponent notation. Every binary64 number has such digits
  among those of length at most 17; \<open>shortest\<close> looks for them in order of length.
\<close>

definition candidate :: "rat \<Rightarrow> nat \<Rightarrow> rat option" where
  "candidate x k =
     (let D = length (dec_str (nat \<lfloor>x\<rfloor>));
          scale = 10 ^ (D - k);
          s = \<lfloor>x / scale\<rfloor>;
          lo = of_int s * scale;
          hi = lo + scale
      in if fl lo = Num x \<and> fl hi = Num x
         then Some (if x - lo < hi - x then lo else if hi - x < x - lo then hi
                    else if even s then lo else hi)
         else if fl lo = Num x then Some lo
         else if fl hi = Num x then Some hi
         else None)"

fun shortest :: "nat \<Rightarrow> nat \<Rightarrow> rat \<Rightarrow> rat" where
  "shortest 0 k x = x"
| "shortest (Suc n) k x = (case candidate x k of Some v \<Rightarrow> v | None \<Rightarrow> shortest n (Suc k) x)"

definition Number_toString :: "rat \<Rightarrow> string" where
  "Number_toString x =
     (let ds = dec_str (nat \<lfloor>shortest 17 1 x\<rfloor>);
          m = rev (dropWhile (\<lambda>c. c = CHR ''0'') (rev ds))
      in hd m # (if tl m = [] then [] else CHR ''.'' # tl m) @ ''e+'' @ dec_str (length ds - 1))"

definition fixed64 :: "nat \<Rightarrow> rat \<Rightarrow> string" where
  "fixed64 f y = (if 10 ^ 21 \<le> y then Number_toString y else fixed_digits f y)"

fun toFixed64 :: "nat \<Rightarrow> jsnum \<Rightarrow> string" where
  "toFixed64 f (Num a) = (if a < 0 then ''-'' @ fixed64 f (- a) else fixed64 f a)"
| "toFixed64 f PosInf = ''Infinity''"
| "toFixed64 f NegInf = ''-Infinity''"
| "toFixed64 f NaN = ''NaN''"

text \<open>
  \<open>parseFloat\<close> with the exponent part, and with its result rounded to binary64.
\<close>

definition exponent_part :: "string \<Rightarrow> int" where
  "exponent_part r =
     (case r of
        [] \<Rightarrow> 0
      | c # t \<Rightarrow>
          if c = CHR ''e'' \<or> c = CHR ''E''
          then (let neg = (case t of d # u \<Rightarrow> d = CHR ''-'' | [] \<Rightarrow> False);
                    t2 = (case t of d # u \<Rightarrow> if d = CHR ''-'' \<or> d = CHR ''+'' then u else t | [] \<Rightarrow> t);
                    ds = takeWhile is_digit t2
                in if neg then - int (dec_val ds) else int (dec_val ds))
          else 0)"

definition parseFloat64 :: "string \<Rightarrow> jsnum" where
  "parseFloat64 s =
     (let s1 = dropWhile (\<lambda>c. c = CHR '' '') s;
          neg = (case s1 of c # r \<Rightarrow> c = CHR ''-'' | [] \<Rightarrow> False);
          s2 = (case s1 of c # r \<Rightarrow> if c = CHR ''-'' \<or> c = CHR ''+'' then r else s1 | [] \<Rightarrow> s1)
      in if take 8 s2 = ''Infinity'' then (if neg then NegInf else PosInf)
         else (let ip = takeWhile is_digit s2;
                   r = dropWhile is_digit s2;
                   fp = (case r of c # t \<Rightarrow> if c = CHR ''.'' then takeWhile is_digit t else [] | [] \<Rightarrow> []);
                   r2 = (case r of c # t \<Rightarrow> if c = CHR ''.'' then dropWhile is_digit t else r | [] \<Rightarrow> r);
                   ex = exponent_part r2
               in if ip = [] \<and> fp = [] then NaN
                  else (let v = of_nat (dec_val (ip @ fp)) / 10 ^ length fp *
                                (if 0 \<le> ex then 10 ^ nat ex else 1 / 10 ^ nat (- ex))
                        in fl (if neg then - v else v))))"

subsection \<open>The calculation in binary64\<close>

text \<open>
  \<open>calculateFuel\<close> and the callback of \<open>routes.map\<close> once more, every operation
  rounded. A number of the request or of the routing answer is the binary64 number
  nearest to its JSON literal; \<open>0.2\<close> and \<open>0.1\<close> are the numbers nearest to one fifth and
  one tenth.
\<close>

definition distanceKm64 :: "'g route \<Rightarrow> jsnum" where
  "distanceKm64 route = div64 (fl (distance route)) (Num 1000)"

definition avgSpeed64 :: "'g route \<Rightarrow> jsnum" where
  "avgSpeed64 route =
     (let distanceKm = distanceKm64 route;
          durationHr = div64 (fl (duration route)) (Num 3600)
      in if js_gt durationHr (Num 0) then div64 distanceKm durationHr else Num 0)"

definition trafficFactor64 :: "jsnum \<Rightarrow> jsnum \<Rightarrow> jsnum" where
  "trafficFactor64 optimal speed =
     (let speedDiff = sub64 optimal speed
      in add64 (Num 1) (mul64 (div64 speedDiff (Num 20)) (fl (1 / 5))))"

definition highwayFactor64 :: "jsnum \<Rightarrow> jsnum \<Rightarrow> jsnum" where
  "highwayFactor64 optimal speed =
     (let speedDiff = sub64 speed optimal
      in add64 (Num 1) (mul64 (div64 speedDiff (Num 30)) (fl (1 / 10))))"

definition efficiency64 :: "vehicle lookup \<Rightarrow> jsnum \<Rightarrow> jsnum" where
  "efficiency64 vehicle speed =
     (if js_lt speed (optimalSpeed_of vehicle)
      then trafficFactor64 (optimalSpeed_of vehicle) speed
      else highwayFactor64 (optimalSpeed_of vehicle) speed)"

definition rawFuelUsed64 :: "vehicle lookup \<Rightarrow> 'g route \<Rightarrow> jsnum" where
  "rawFuelUsed64 vehicle route =
     mul64 (mul64 (div64 (distanceKm64 route) (Num 100)) (baseConsumption_of vehicle))
       (efficiency64 vehicle (avgSpeed64 route))"

definition calculateFuel64 :: "'g route \<Rightarrow> string \<Rightarrow> fuelStats" where
  "calculateFuel64 route vehicleType =
     (let vehicle = vehicle_for vehicleType
      in \<lparr>fuelUsed = parseFloat64 (toFixed64 2 (rawFuelUsed64 vehicle route)),
          avgSpeed = Math_round (avgSpeed64 route),
          efficiencyFactor = parseFloat64 (toFixed64 2 (efficiency64 vehicle (avgSpeed64 route)))\<rparr>)"

definition price64 :: "rat option \<Rightarrow> jsnum" where
  "price64 fuelPrice = (case fuelPrice of None \<Rightarrow> Num 0 | Some p \<Rightarrow> fl p)"

definition processRoute64 :: "string \<Rightarrow> rat option \<Rightarrow> nat \<times> 'g route \<Rightarrow> 'g jsobject" where
  "processRoute64 vehicleType fuelPrice ir =
     (let index = fst ir;
          route = snd ir;
          fuelStats = calculateFuel64 route vehicleType;
          cost = mul64 (fuelUsed fuelStats) (price64 fuelPrice)
      in [(''id'', JNum (Num (of_nat index))),
          (''geometry'', JOpaque (geometry route)),
          (''distanceKm'', JStr (toFixed64 1 (div64 (fl (distance route)) (Num 1000)))),
          (''durationMin'', JStr (toFixed64 0 (div64 (fl (duration route)) (Num 60)))),
          (''fuelUsedLiters'', JNum (fuelUsed fuelStats)),
          (''fuelCost'', JStr (toFixed64 0 cost)),
          (''avgSpeed'', JNum (avgSpeed fuelStats)),
          (''isFastest'', JBool (index = 0)),
          (''score'', JNum (fuelUsed fuelStats))])"

section \<open>Reading back what \<open>toFixed\<close> prints\<close>

lemma is_digit_digit_char: "d < 10 \<Longrightarrow> is_digit (digit_char d)"
  by (simp add: is_digit_def digit_char_def)

lemma digit_val_digit_char: "d < 10 \<Longrightarrow> digit_val (digit_char d) = d"
  by (simp add: digit_val_def digit_char_def)

lemma dec_str_digits: "c \<in> set (dec_str n) \<Longrightarrow> is_digit c"
proof (induction n rule: dec_str.induct)
  case (1 n)
  show ?case
  proof (cases "n < 10")
    case True
    with "1.prems" show ?thesis
      by (simp add: dec_str.simps [of n] is_digit_digit_char)
  next
    case False
    with "1.prems" "1.IH" show ?thesis
      by (auto simp: dec_str.simps [of n] is_digit_digit_char)
  qed
qed

lemma dec_str_nonempty: "dec_str n \<noteq> []"
  by (subst dec_str.simps) simp

lemma dec_val_snoc: "dec_val (s @ [c]) = 10 * dec_val s + digit_val c"
  by (simp add: dec_val_def)

lemma dec_val_dec_str: "dec_val (dec_str n) = n"
proof (induction n rule: dec_str.induct)
  case (1 n)
  show ?case
  proof (cases "n < 10")
    case True
    then show ?thesis
      by (simp add: dec_str.simps [of n] dec_val_def digit_val_digit_char)
  next
    case False
    with "1.IH" show ?thesis
      by (simp add: dec_str.simps [of n] dec_val_snoc digit_val_digit_char)
  qed
qed

lemma dec_val_zeros: "dec_val (replicate k (CHR ''0'') @ s) = dec_val s"
proof -
  have "foldl (\<lambda>a c. 10 * a + digit_val c) 0 (replicate k (CHR ''0'')) = 0"
    by (induction k) (simp_all add: digit_val_def)
  then show ?thesis by (simp add: dec_val_def)
qed

lemma not_digit_point: "\<not> is_digit (CHR ''.'')"
  by (simp add: is_digit_def)

lemma digit_not_special:
  "is_digit c \<Longrightarrow> c \<noteq> CHR '' '' \<and> c \<noteq> CHR ''-'' \<and> c \<noteq> CHR ''+'' \<and> c \<noteq> CHR ''I''"
  by (auto simp: is_digit_def)

lemma parseFloat_frac:
  assumes ip: "ip \<noteq> []" "\<forall>c\<in>set ip. is_digit c" and fp: "\<forall>c\<in>set fp. is_digit c"
  shows "parseFloat (ip @ CHR ''.'' # fp) = Num (of_nat (dec_val (ip @ fp)) / 10 ^ length fp)"
    and "parseFloat (CHR ''-'' # ip @ CHR ''.'' # fp) = Num (- (of_nat (dec_val (ip @ fp)) / 10 ^ length fp))"
proof -
  obtain c r where c: "ip = c # r" using ip(1) by (cases ip) auto
  with ip(2) have d: "is_digit c" and r: "\<And>x. x \<in> set r \<Longrightarrow> is_digit x" by simp_all
  note ns = digit_not_special [OF d]
  have f: "takeWhile is_digit fp = fp" using fp by simp
  show "parseFloat (ip @ CHR ''.'' # fp) = Num (of_nat (dec_val (ip @ fp)) / 10 ^ length fp)"
    using ns d r by (simp add: parseFloat_def c not_digit_point Let_def f)
  show "parseFloat (CHR ''-'' # ip @ CHR ''.'' # fp) = Num (- (of_nat (dec_val (ip @ fp)) / 10 ^ length fp))"
    using ns d r by (simp add: parseFloat_def c not_digit_point Let_def f)
qed

lemma parseFloat_int:
  assumes ip: "ip \<noteq> []" "\<forall>c\<in>set ip. is_digit c"
  shows "parseFloat ip = Num (of_nat (dec_val ip))"
    and "parseFloat (CHR ''-'' # ip) = Num (- of_nat (dec_val ip))"
proof -
  obtain c r where c: "ip = c # r" using ip(1) by (cases ip) auto
  with ip(2) have d: "is_digit c" and r: "\<And>x. x \<in> set r \<Longrightarrow> is_digit x" by simp_all
  note ns = digit_not_special [OF d]
  have tr: "takeWhile is_digit r = r" "dropWhile is_digit r = []" using r by simp_all
  show "parseFloat ip = Num (of_nat (dec_val ip))"
    using ns d r by (simp add: parseFloat_def c Let_def tr)
  show "parseFloat (CHR ''-'' # ip) = Num (- of_nat (dec_val ip))"
    using ns d r by (simp add: parseFloat_def c Let_def tr)
qed

lemma is_digit_zero: "is_digit (CHR ''0'')"
  by (simp add: is_digit_def)

lemma fixed_digits_zero: "fixed_digits 0 y = dec_str (nat \<lfloor>y + 1 / 2\<rfloor>)"
  by (simp add: fixed_digits_def)

lemma fixed_digits_shape:
  assumes "0 < f"
  obtains ip fp where "fixed_digits f y = ip @ CHR ''.'' # fp" "ip \<noteq> []"
    "\<forall>c\<in>set ip. is_digit c" "\<forall>c\<in>set fp. is_digit c" "length fp = f"
    "dec_val (ip @ fp) = nat \<lfloor>y * 10 ^ f + 1 / 2\<rfloor>"
proof -
  define n where "n = nat \<lfloor>y * 10 ^ f + 1 / 2\<rfloor>"
  define m where "m = replicate (f + 1 - length (dec_str n)) (CHR ''0'') @ dec_str n"
  define ip where "ip = take (length m - f) m"
  define fp where "fp = drop (length m - f) m"
  have len: "f + 1 \<le> length m" by (simp add: m_def)
  have dig: "\<forall>c\<in>set m. is_digit c"
    by (auto simp: m_def is_digit_zero dec_str_digits)
  have val: "dec_val m = n" by (simp add: m_def dec_val_zeros dec_val_dec_str)
  have "fixed_digits f y = ip @ CHR ''.'' # fp"
    using assms by (simp add: fixed_digits_def Let_def n_def m_def ip_def fp_def)
  moreover have "ip \<noteq> []" using len by (auto simp: ip_def)
  moreover have "\<forall>c\<in>set ip. is_digit c" using dig by (auto simp: ip_def dest: in_set_takeD)
  moreover have "\<forall>c\<in>set fp. is_digit c" using dig by (auto simp: fp_def dest: in_set_dropD)
  moreover have "length fp = f" using len by (simp add: fp_def)
  moreover have "dec_val (ip @ fp) = nat \<lfloor>y * 10 ^ f + 1 / 2\<rfloor>"
    using val by (simp add: ip_def fp_def n_def)
  ultimately show thesis by (rule that)
qed

lemma parseFloat_fixed_digits:
  assumes "0 \<le> y"
  shows "parseFloat (fixed_digits f y) = Num (of_int \<lfloor>y * 10 ^ f + 1 / 2\<rfloor> / 10 ^ f)"
    and "parseFloat (CHR ''-'' # fixed_digits f y) = Num (- (of_int \<lfloor>y * 10 ^ f + 1 / 2\<rfloor> / 10 ^ f))"
proof -
  have nonneg: "0 \<le> \<lfloor>y * 10 ^ f + 1 / 2\<rfloor>" using assms by simp
  have cast: "rat_of_nat (nat \<lfloor>y * 10 ^ f + 1 / 2\<rfloor>) = of_int \<lfloor>y * 10 ^ f + 1 / 2\<rfloor>"
    using nonneg by simp
  show "parseFloat (fixed_digits f y) = Num (of_int \<lfloor>y * 10 ^ f + 1 / 2\<rfloor> / 10 ^ f)"
  proof (cases "f = 0")
    case True
    then show ?thesis
      using parseFloat_int(1) [OF dec_str_nonempty, of "nat \<lfloor>y + 1 / 2\<rfloor>"] cast
      by (simp add: fixed_digits_zero dec_str_digits dec_val_dec_str)
  next
    case False
    then obtain ip fp where s: "fixed_digits f y = ip @ CHR ''.'' # fp" "ip \<noteq> []"
      "\<forall>c\<in>set ip. is_digit c" "\<forall>c\<in>set fp. is_digit c" "length fp = f"
      "dec_val (ip @ fp) = nat \<lfloor>y * 10 ^ f + 1 / 2\<rfloor>"
      using fixed_digits_shape [of f y] by auto
    show ?thesis
      using parseFloat_frac(1) [OF s(2,3,4)] s(1,5,6) cast by simp
  qed
  show "parseFloat (CHR ''-'' # fixed_digits f y) = Num (- (of_int \<lfloor>y * 10 ^ f + 1 / 2\<rfloor> / 10 ^ f))"
  proof (cases "f = 0")
    case True
    then show ?thesis
      using parseFloat_int(2) [OF dec_str_nonempty, of "nat \<lfloor>y + 1 / 2\<rfloor>"] cast
      by (simp add: fixed_digits_zero dec_str_digits dec_val_dec_str)
  next
    case False
    then obtain ip fp where s: "fixed_digits f y = ip @ CHR ''.'' # fp" "ip \<noteq> []"
      "\<forall>c\<in>set ip. is_digit c" "\<forall>c\<in>set fp. is_digit c" "length fp = f"
      "dec_val (ip @ fp) = nat \<lfloor>y * 10 ^ f + 1 / 2\<rfloor>"
      using fixed_digits_shape [of f y] by auto
    show ?thesis
      using parseFloat_frac(2) [OF s(2,3,4)] s(1,5,6) cast by simp
  qed
qed

lemma parseFloat_toFixed: "parseFloat (toFixed f (Num a)) = Num (round_at f a)"
proof (cases "a < 0")
  case True
  then show ?thesis
    using parseFloat_fixed_digits(2) [of "- a" f] by (simp add: round_at_def)
next
  case False
  then show ?thesis
    using parseFloat_fixed_digits(1) [of a f] by (simp add: round_at_def)
qed

lemma parseFloat_toFixed_NaN: "parseFloat (toFixed f NaN) = NaN"
  by (simp add: parseFloat_def is_digit_def)

lemma parseFloat_toFixed_Inf: "parseFloat (toFixed f PosInf) = PosInf" "parseFloat (toFixed f NegInf) = NegInf"
  by (simp_all add: parseFloat_def)

text \<open>Rules that print a concrete number.\<close>

lemma floor_rat_numeral: "\<lfloor>numeral a / numeral b :: rat\<rfloor> = numeral a div numeral b"
  using floor_divide_of_int_eq [of "numeral a" "numeral b", where ?'a = rat] by simp

lemma floor_rat_one_numeral: "\<lfloor>1 / numeral b :: rat\<rfloor> = 1 div numeral b"
  using floor_divide_of_int_eq [of 1 "numeral b", where ?'a = rat] by simp

lemma dec_str_small: "n < 10 \<Longrightarrow> dec_str n = [digit_char n]"
  by (simp add: dec_str.simps)

lemma dec_str_big: "\<not> n < 10 \<Longrightarrow> dec_str n = dec_str (n div 10) @ [digit_char (n mod 10)]"
  by (subst dec_str.simps) simp

lemma digit_char_simps:
  "digit_char 0 = CHR ''0''" "digit_char 1 = CHR ''1''" "digit_char (Suc 0) = CHR ''1''"
  "digit_char 2 = CHR ''2''" "digit_char 3 = CHR ''3''" "digit_char 4 = CHR ''4''"
  "digit_char 5 = CHR ''5''" "digit_char 6 = CHR ''6''" "digit_char 7 = CHR ''7''"
  "digit_char 8 = CHR ''8''" "digit_char 9 = CHR ''9''"
  by (simp_all add: digit_char_def char_of_def bit_iff_odd)

lemmas toFixed_eval = fixed_digits_def dec_str_small dec_str_big digit_char_simps floor_rat_numeral Let_def

section \<open>Vehicle lookup and the fuel figures\<close>


lemma get_prop_VEHICLES:
  "get_prop VEHICLES k =
     (if k = ''motorbike'' then Own motorbike else if k = ''car'' then Own car
      else if k = ''truck'' then Own truck
      else if k \<in> set Object_prototype then Inherited k else Undefined)"
  by (simp add: get_prop_def VEHICLES_def)

lemma vehicle_for_cases:
  "vehicle_for k =
     (if k = ''motorbike'' then Own motorbike else if k = ''car'' then Own car
      else if k = ''truck'' then Own truck
      else if k \<in> set Object_prototype then Inherited k else Own car)"
  by (simp add: vehicle_for_def get_prop_VEHICLES)

lemma vehicle_for_car: "vehicle_for ''car'' = Own car"
  by (simp add: vehicle_for_cases)


lemma avgSpeed_of_Num: "avgSpeed_of route = Num (speed_q route)"
  by (simp add: avgSpeed_of_def distanceKm_of_def js_gt_def Let_def speed_q_def)

lemma efficiency_Own: "efficiency (Own v) (Num s) = Num (eff_q v s)"
  by (simp add: efficiency_def trafficFactor_def highwayFactor_def js_sub_def eff_q_def)

lemma efficiency_Inherited: "efficiency (Inherited k) s = NaN"
  by (cases s) (simp_all add: efficiency_def highwayFactor_def js_sub_def)

lemma rawFuelUsed_Own: "rawFuelUsed (Own v) route = Num (fuel_q v route)"
  by (simp add: rawFuelUsed_def distanceKm_of_def avgSpeed_of_Num efficiency_Own fuel_q_def)

lemma rawFuelUsed_Inherited: "rawFuelUsed (Inherited k) route = NaN"
  by (simp add: rawFuelUsed_def distanceKm_of_def efficiency_Inherited)

lemma calculateFuel_Own:
  assumes "vehicle_for vt = Own v"
  shows "calculateFuel route vt =
    \<lparr>fuelUsed = Num (round_at 2 (fuel_q v route)),
     avgSpeed = Num (of_int \<lfloor>speed_q route + 1 / 2\<rfloor>),
     efficiencyFactor = Num (round_at 2 (eff_q v (speed_q route)))\<rparr>"
  using assms
  by (simp add: calculateFuel_def rawFuelUsed_Own avgSpeed_of_Num efficiency_Own parseFloat_toFixed
      del: toFixed.simps)

lemma calculateFuel_Inherited:
  assumes "vehicle_for vt = Inherited k"
  shows "calculateFuel route vt =
    \<lparr>fuelUsed = NaN, avgSpeed = Num (of_int \<lfloor>speed_q route + 1 / 2\<rfloor>), efficiencyFactor = NaN\<rparr>"
  using assms
  by (simp add: calculateFuel_def rawFuelUsed_Inherited avgSpeed_of_Num efficiency_Inherited
      parseFloat_toFixed_NaN del: toFixed.simps)

lemma fuelUsed_Own:
  assumes "vehicle_for vt = Own v"
  shows "fuelUsed (calculateFuel route vt) = Num (round_at 2 (fuel_q v route))"
  using assms by (simp add: calculateFuel_Own)

lemma fuelUsed_Inherited:
  assumes "vehicle_for vt = Inherited k"
  shows "fuelUsed (calculateFuel route vt) = NaN"
  using assms by (simp add: calculateFuel_Inherited)

section \<open>The stable sort\<close>

text \<open>
  Where the comparator is the difference of finite keys, \<open>js_sort\<close> is the stable
  insertion sort of the library; in any case its first element is the first minimum.
\<close>

lemma js_sort_Cons: "js_sort cmp (x # xs) = insert_by cmp x (js_sort cmp xs)"
  by (simp add: js_sort_def)

lemma js_sort_Nil: "js_sort cmp [] = []"
  by (simp add: js_sort_def)


lemma length_insert_by: "length (insert_by cmp x ys) = Suc (length ys)"
  by (induction ys) simp_all

lemma length_js_sort: "length (js_sort cmp xs) = length xs"
  by (induction xs) (simp_all add: js_sort_Nil js_sort_Cons length_insert_by)

lemma js_sort_eq_Nil: "js_sort cmp xs = [] \<longleftrightarrow> xs = []"
  using length_js_sort [of cmp xs] by (metis length_0_conv)

lemma insert_by_insort_key:
  fixes k :: "'a \<Rightarrow> rat"
  assumes "\<And>y. y \<in> set ys \<Longrightarrow> js_gt (cmp x y) (Num 0) = (k y < k x)"
  shows "insert_by cmp x ys = insort_key k x ys"
  using assms by (induction ys) (auto simp: not_less)

lemma js_sort_sort_key:
  fixes k :: "'a \<Rightarrow> rat"
  assumes "\<And>x y. x \<in> set xs \<Longrightarrow> y \<in> set xs \<Longrightarrow> js_gt (cmp x y) (Num 0) = (k y < k x)"
  shows "js_sort cmp xs = sort_key k xs"
  using assms
proof (induction xs)
  case Nil
  then show ?case by (simp add: js_sort_Nil)
next
  case (Cons x xs)
  have "js_sort cmp xs = sort_key k xs" using Cons by simp
  moreover have "insert_by cmp x (sort_key k xs) = insort_key k x (sort_key k xs)"
    using Cons.prems by (intro insert_by_insort_key) simp
  ultimately show ?case by (simp add: js_sort_Cons)
qed



section \<open>What the endpoint answers\<close>

lemma length_processedRoutes_of: "length (processedRoutes_of vt fp rs) = length rs"
  by (simp add: processedRoutes_of_def)

lemma nth_processedRoutes_of:
  "i < length rs \<Longrightarrow> processedRoutes_of vt fp rs ! i = processRoute vt fp (i, rs ! i)"
  by (simp add: processedRoutes_of_def nth_enumerate_eq)

lemma read_id: "read (processRoute vt fp (i, r)) ''id'' = JNum (Num (of_nat i))"
  by (simp add: read_def get_prop_def processRoute_def Let_def)

lemma read_num_fuelUsedLiters:
  "read_num (processRoute vt fp (i, r)) ''fuelUsedLiters'' = fuelUsed (calculateFuel r vt)"
  by (simp add: read_num_def read_def get_prop_def processRoute_def Let_def)

lemma rank_store_eq:
  "rank_store vt fp rs =
     (0, 1, [processedRoutes_of vt fp rs, js_sort byFuel (processedRoutes_of vt fp rs)])"
  by (simp add: rank_store_def alloc_def sort_at_def)

lemma rank_routes_eq:
  "rank_routes vt fp rs =
     (case js_sort byFuel (processedRoutes_of vt fp rs) of
        [] \<Rightarrow> Inl TypeError
      | best # rest \<Rightarrow> Inr (Json200 (processedRoutes_of vt fp rs) (read best ''id'')))"
  by (simp add: rank_routes_def rank_store_eq split: list.splits)

lemma calculate_route_nonempty:
  assumes "rs \<noteq> []"
  shows "calculate_route (Some rs) vt fp =
     Json200 (processedRoutes_of vt fp rs)
       (read (hd (js_sort byFuel (processedRoutes_of vt fp rs))) ''id'')"
proof -
  have "length (processedRoutes_of vt fp rs) \<noteq> 0"
    using assms by (simp add: length_processedRoutes_of)
  then have "js_sort byFuel (processedRoutes_of vt fp rs) \<noteq> []"
    by (simp add: js_sort_eq_Nil)
  then show ?thesis
    using assms by (simp add: calculate_route_def rank_routes_eq split: list.splits)
qed


text \<open>Rules that evaluate the figures of a car on concrete routes.\<close>

lemmas car_eval = read_id read_num_fuelUsedLiters byFuel_def fuelUsed_Own [OF vehicle_for_car]
  fuel_q_def eff_q_def speed_q_def car_def round_at_def js_sub_def js_gt_def floor_rat_numeral

section \<open>The fuel-best route\<close>



section \<open>Binary64 rounding\<close>

text \<open>
  The rounding \<open>fl\<close> is monotone: of two numbers, the larger never rounds to the
  smaller. So is every rounded operation that is monotone before the rounding, and with
  them the efficiency factor on either side of the optimal speed.
\<close>

subsection \<open>Powers of two and the exponent\<close>





lemma pow2_nat: "pow2 (int n) = 2 ^ n"
  by (simp add: pow2_def)



subsection \<open>Rounding is monotone\<close>











lemma js_le_refl: "x \<noteq> NaN \<Longrightarrow> js_le x x"
  by (cases x) simp_all

lemma js_le_trans: "js_le x y \<Longrightarrow> js_le y z \<Longrightarrow> js_le x z"
  by (cases x; cases y; cases z) simp_all

lemma fl_not_NaN: "fl a \<noteq> NaN"
  by (simp add: fl_def)



subsection \<open>Evaluating a rounding\<close>

text \<open>Rules that compute the rounding of a concrete number.\<close>

lemma bits_0: "bits 0 = 0"
  by (simp add: bits.simps)

lemma bits_pos: "n \<noteq> 0 \<Longrightarrow> bits n = Suc (bits (n div 2))"
  by (subst bits.simps) simp

lemma ceiling_rat_numeral: "\<lceil>numeral a / numeral b :: rat\<rceil> = - (- numeral a div numeral b)"
  using ceiling_divide_eq_div [of "numeral a" "numeral b", where ?'a = rat] by simp

lemmas fl_eval = fl_def mag_def ilog2_def bits_0 bits_pos pow2_def round_even_def Let_def
  floor_rat_numeral floor_rat_one_numeral ceiling_rat_numeral




text \<open>A tie goes to the even significand, and a negative number rounds like its magnitude.\<close>

lemma fl_examples:
  "fl (2 ^ 53 + 1) = Num (2 ^ 53)"
  "fl (2 ^ 53 + 3) = Num (2 ^ 53 + 4)"
  "fl (- (1 / 3)) = Num (- (6004799503160661 / 18014398509481984))"
  by (simp_all add: fl_eval)

subsection \<open>The rounded operations are monotone\<close>










text \<open>The two penalty formulas as functions of the rounded speed difference.\<close>

lemma trafficFactor64_diff:
  "trafficFactor64 (Num os) (Num s) =
     add64 (Num 1) (mul64 (div64 (fl (os - s)) (Num 20)) (fl (1 / 5)))"
  by (simp add: trafficFactor64_def sub64_def js_sub_def)

lemma highwayFactor64_diff:
  "highwayFactor64 (Num os) (Num s) =
     add64 (Num 1) (mul64 (div64 (fl (s - os)) (Num 30)) (fl (1 / 10)))"
  by (simp add: highwayFactor64_def sub64_def js_sub_def)










lemma efficiency64_Own:
  "efficiency64 (Own v) (Num s) =
     (if s < optimalSpeed v then trafficFactor64 (Num (optimalSpeed v)) (Num s)
      else highwayFactor64 (Num (optimalSpeed v)) (Num s))"
  by (simp add: efficiency64_def)

subsection \<open>Reading back what \<open>toFixed\<close> prints, in binary64\<close>

lemma exponent_part_Nil: "exponent_part [] = 0"
  by (simp add: exponent_part_def)

lemma parseFloat64_frac:
  assumes ip: "ip \<noteq> []" "\<forall>c\<in>set ip. is_digit c" and fp: "\<forall>c\<in>set fp. is_digit c"
  shows "parseFloat64 (ip @ CHR ''.'' # fp) = fl (of_nat (dec_val (ip @ fp)) / 10 ^ length fp)"
    and "parseFloat64 (CHR ''-'' # ip @ CHR ''.'' # fp) = fl (- (of_nat (dec_val (ip @ fp)) / 10 ^ length fp))"
proof -
  obtain c r where c: "ip = c # r" using ip(1) by (cases ip) auto
  with ip(2) have d: "is_digit c" and r: "\<And>x. x \<in> set r \<Longrightarrow> is_digit x" by simp_all
  note ns = digit_not_special [OF d]
  have f: "takeWhile is_digit fp = fp" "dropWhile is_digit fp = []" using fp by simp_all
  show "parseFloat64 (ip @ CHR ''.'' # fp) = fl (of_nat (dec_val (ip @ fp)) / 10 ^ length fp)"
    using ns d r by (simp add: parseFloat64_def c not_digit_point Let_def f exponent_part_Nil)
  show "parseFloat64 (CHR ''-'' # ip @ CHR ''.'' # fp) = fl (- (of_nat (dec_val (ip @ fp)) / 10 ^ length fp))"
    using ns d r by (simp add: parseFloat64_def c not_digit_point Let_def f exponent_part_Nil)
qed

lemma parseFloat64_int:
  assumes ip: "ip \<noteq> []" "\<forall>c\<in>set ip. is_digit c"
  shows "parseFloat64 ip = fl (of_nat (dec_val ip))"
    and "parseFloat64 (CHR ''-'' # ip) = fl (- of_nat (dec_val ip))"
proof -
  obtain c r where c: "ip = c # r" using ip(1) by (cases ip) auto
  with ip(2) have d: "is_digit c" and r: "\<And>x. x \<in> set r \<Longrightarrow> is_digit x" by simp_all
  note ns = digit_not_special [OF d]
  have tr: "takeWhile is_digit r = r" "dropWhile is_digit r = []" using r by simp_all
  show "parseFloat64 ip = fl (of_nat (dec_val ip))"
    using ns d r by (simp add: parseFloat64_def c Let_def tr exponent_part_Nil)
  show "parseFloat64 (CHR ''-'' # ip) = fl (- of_nat (dec_val ip))"
    using ns d r by (simp add: parseFloat64_def c Let_def tr exponent_part_Nil)
qed

lemma parseFloat64_fixed_digits:
  assumes "0 \<le> y"
  shows "parseFloat64 (fixed_digits f y) = fl (of_int \<lfloor>y * 10 ^ f + 1 / 2\<rfloor> / 10 ^ f)"
    and "parseFloat64 (CHR ''-'' # fixed_digits f y) = fl (- (of_int \<lfloor>y * 10 ^ f + 1 / 2\<rfloor> / 10 ^ f))"
proof -
  have nonneg: "0 \<le> \<lfloor>y * 10 ^ f + 1 / 2\<rfloor>" using assms by simp
  have cast: "rat_of_nat (nat \<lfloor>y * 10 ^ f + 1 / 2\<rfloor>) = of_int \<lfloor>y * 10 ^ f + 1 / 2\<rfloor>"
    using nonneg by simp
  show "parseFloat64 (fixed_digits f y) = fl (of_int \<lfloor>y * 10 ^ f + 1 / 2\<rfloor> / 10 ^ f)"
  proof (cases "f = 0")
    case True
    then show ?thesis
      using parseFloat64_int(1) [OF dec_str_nonempty, of "nat \<lfloor>y + 1 / 2\<rfloor>"] cast
      by (simp add: fixed_digits_zero dec_str_digits dec_val_dec_str)
  next
    case False
    then obtain ip fp where s: "fixed_digits f y = ip @ CHR ''.'' # fp" "ip \<noteq> []"
      "\<forall>c\<in>set ip. is_digit c" "\<forall>c\<in>set fp. is_digit c" "length fp = f"
      "dec_val (ip @ fp) = nat \<lfloor>y * 10 ^ f + 1 / 2\<rfloor>"
      using fixed_digits_shape [of f y] by auto
    show ?thesis
      using parseFloat64_frac(1) [OF s(2,3,4)] s(1,5,6) cast by simp
  qed
  show "parseFloat64 (CHR ''-'' # fixed_digits f y) = fl (- (of_int \<lfloor>y * 10 ^ f + 1 / 2\<rfloor> / 10 ^ f))"
  proof (cases "f = 0")
    case True
    then show ?thesis
      using parseFloat64_int(2) [OF dec_str_nonempty, of "nat \<lfloor>y + 1 / 2\<rfloor>"] cast
      by (simp add: fixed_digits_zero dec_str_digits dec_val_dec_str)
  next
    case False
    then obtain ip fp where s: "fixed_digits f y = ip @ CHR ''.'' # fp" "ip \<noteq> []"
      "\<forall>c\<in>set ip. is_digit c" "\<forall>c\<in>set fp. is_digit c" "length fp = f"
      "dec_val (ip @ fp) = nat \<lfloor>y * 10 ^ f + 1 / 2\<rfloor>"
      using fixed_digits_shape [of f y] by auto
    show ?thesis
      using parseFloat64_frac(2) [OF s(2,3,4)] s(1,5,6) cast by simp
  qed
qed

lemma toFixed64_toFixed: "\<bar>a\<bar> < 10 ^ 21 \<Longrightarrow> toFixed64 f (Num a) = toFixed f (Num a)"
  by (cases "a < 0") (simp_all add: fixed64_def)

lemma parseFloat64_toFixed64:
  "\<bar>a\<bar> < 10 ^ 21 \<Longrightarrow> parseFloat64 (toFixed64 f (Num a)) = fl (round_at f a)"
proof (cases "a < 0")
  case True
  assume "\<bar>a\<bar> < 10 ^ 21"
  with True show ?thesis
    using parseFloat64_fixed_digits(2) [of "- a" f] by (simp add: round_at_def fixed64_def)
next
  case False
  assume "\<bar>a\<bar> < 10 ^ 21"
  with False show ?thesis
    using parseFloat64_fixed_digits(1) [of a f] by (simp add: round_at_def fixed64_def)
qed

lemma parseFloat64_NaN: "parseFloat64 (toFixed64 f NaN) = NaN"
  by (simp add: parseFloat64_def is_digit_def)

lemma parseFloat64_Inf:
  "parseFloat64 (toFixed64 f PosInf) = PosInf" "parseFloat64 (toFixed64 f NegInf) = NegInf"
  by (simp_all add: parseFloat64_def)

lemma read_processRoute64:
  "read (processRoute64 vt fp (i, r)) ''id'' = JNum (Num (of_nat i))"
  "read (processRoute64 vt fp (i, r)) ''geometry'' = JOpaque (geometry r)"
  "read (processRoute64 vt fp (i, r)) ''distanceKm'' = JStr (toFixed64 1 (distanceKm64 r))"
  "read (processRoute64 vt fp (i, r)) ''durationMin'' = JStr (toFixed64 0 (div64 (fl (duration r)) (Num 60)))"
  "read (processRoute64 vt fp (i, r)) ''fuelUsedLiters'' = JNum (fuelUsed (calculateFuel64 r vt))"
  "read (processRoute64 vt fp (i, r)) ''fuelCost'' =
     JStr (toFixed64 0 (mul64 (fuelUsed (calculateFuel64 r vt)) (price64 fp)))"
  "read (processRoute64 vt fp (i, r)) ''avgSpeed'' = JNum (Math_round (avgSpeed64 r))"
  "read (processRoute64 vt fp (i, r)) ''isFastest'' = JBool (i = 0)"
  "read (processRoute64 vt fp (i, r)) ''score'' = JNum (fuelUsed (calculateFuel64 r vt))"
  "read (processRoute64 vt fp (i, r)) ''efficiencyFactor'' = JUndefined"
  by (simp_all add: read_def get_prop_def processRoute64_def calculateFuel64_def distanceKm64_def
      Let_def Object_prototype_def del: toFixed64.simps)

lemma round64_NaN_iff: "round64 x = NaN \<longleftrightarrow> x = NaN"
  by (cases x) (simp_all add: fl_not_NaN)

lemma rawFuelUsed64_Inherited: "rawFuelUsed64 (Inherited k) route = NaN"
proof -
  have "js_mul x NaN = NaN" for x by (cases x) simp_all
  then show ?thesis by (simp add: rawFuelUsed64_def mul64_def)
qed

lemma calculateFuel64_Inherited:
  assumes "vehicle_for vt = Inherited k"
  shows "fuelUsed (calculateFuel64 route vt) = NaN"
    and "efficiencyFactor (calculateFuel64 route vt) = NaN"
proof -
  have e: "efficiency64 (Inherited k) s = NaN" for s
    by (cases s) (simp_all add: efficiency64_def highwayFactor64_def sub64_def js_sub_def
        div64_def mul64_def add64_def)
  show "fuelUsed (calculateFuel64 route vt) = NaN"
    using assms by (simp add: calculateFuel64_def rawFuelUsed64_Inherited parseFloat64_NaN
        del: toFixed64.simps)
  show "efficiencyFactor (calculateFuel64 route vt) = NaN"
    using assms by (simp add: calculateFuel64_def e parseFloat64_NaN del: toFixed64.simps)
qed

subsection \<open>Evaluating the calculation on concrete routes\<close>

lemmas op64_eval = add64_def sub64_def mul64_def div64_def js_sub_def js_gt_def

lemmas avgSpeed64_eval = avgSpeed64_def distanceKm64_def op64_eval fl_eval

lemmas eff64_eval = efficiency64_Own highwayFactor64_diff trafficFactor64_diff car_def op64_eval fl_eval

lemma shortest_numeral:
  "shortest (numeral n) k x =
     (case candidate x k of Some v \<Rightarrow> v | None \<Rightarrow> shortest (pred_numeral n) (Suc k) x)"
  by (simp add: numeral_eq_Suc)

lemmas toFixed64_eval = fixed64_def toFixed_eval Number_toString_def candidate_def shortest_numeral

text \<open>
  The figures that \<open>calculateFuel\<close> returns for a vehicle profile, while the raw values are
  below \<open>10^21\<close>: each is the binary64 number nearest to the two-decimal rounding.
\<close>

lemma calculateFuel64_Own:
  assumes "vehicle_for vt = Own v"
  shows "efficiency64 (Own v) (avgSpeed64 r) = Num e \<Longrightarrow> \<bar>e\<bar> < 10 ^ 21 \<Longrightarrow>
           efficiencyFactor (calculateFuel64 r vt) = fl (round_at 2 e)"
    and "rawFuelUsed64 (Own v) r = Num u \<Longrightarrow> \<bar>u\<bar> < 10 ^ 21 \<Longrightarrow>
           fuelUsed (calculateFuel64 r vt) = fl (round_at 2 u)"
    and "avgSpeed (calculateFuel64 r vt) = Math_round (avgSpeed64 r)"
  using assms by (simp_all add: calculateFuel64_def Let_def parseFloat64_toFixed64 del: toFixed64.simps)


text \<open>The worked example in binary64: the same figures as in exact arithmetic.\<close>

lemma car_example_binary64:
  "avgSpeed64 \<lparr>distance = 100000, duration = 3600, geometry = ()\<rparr> = Num 100"
  "rawFuelUsed64 (Own car) \<lparr>distance = 100000, duration = 3600, geometry = ()\<rparr> =
     Num (4203359652212463 / 562949953421312)"
  "fuelUsed (calculateFuel64 \<lparr>distance = 100000, duration = 3600, geometry = ()\<rparr> ''car'') = fl (747 / 100)"
  "efficiencyFactor (calculateFuel64 \<lparr>distance = 100000, duration = 3600, geometry = ()\<rparr> ''car'') =
     fl (107 / 100)"
  "read (processRoute64 ''car'' (Some 25000)
     (0, \<lparr>distance = 100000, duration = 3600, geometry = ()\<rparr>)) ''fuelCost'' = JStr ''186750''"
proof -
  let ?r = "\<lparr>distance = 100000, duration = 3600, geometry = ()\<rparr>"
  show s: "avgSpeed64 ?r = Num 100"
    by (simp add: avgSpeed64_eval)
  have e: "efficiency64 (Own car) (avgSpeed64 ?r) = Num (4803839602528529 / 4503599627370496)"
    by (simp add: s eff64_eval)
  show u: "rawFuelUsed64 (Own car) ?r = Num (4203359652212463 / 562949953421312)"
    by (simp add: rawFuelUsed64_def e) (simp add: car_def distanceKm64_def op64_eval fl_eval)
  show f: "fuelUsed (calculateFuel64 ?r ''car'') = fl (747 / 100)"
    using calculateFuel64_Own(2) [OF vehicle_for_car u] by (simp add: round_at_def floor_rat_numeral)
  show "efficiencyFactor (calculateFuel64 ?r ''car'') = fl (107 / 100)"
    using calculateFuel64_Own(1) [OF vehicle_for_car e] by (simp add: round_at_def floor_rat_numeral)
  show "read (processRoute64 ''car'' (Some 25000) (0, ?r)) ''fuelCost'' = JStr ''186750''"
    by (simp add: read_processRoute64 f price64_def mul64_def fl_eval toFixed64_eval)
qed

text \<open>
  The cost is rounded from the binary64 product: 0.29 litres at a price of 50 is 14.5 in
  exact arithmetic, just below it in binary64, and prints as \<open>14\<close>.
\<close>

lemma fuelCost_binary64_product:
  "toFixed64 0 (mul64 (fl (29 / 100)) (price64 (Some 50))) = ''14''"
  "toFixed 0 (js_mul (Num (29 / 100)) (price_or_zero (Some 50))) = ''15''"
  by (simp_all add: price64_def price_or_zero_def mul64_def fl_eval toFixed64_eval)

section \<open>The efficiency curve\<close>

text \<open>
  Claim C3. At a speed equal to the optimal speed of a vehicle profile the efficiency
  factor is exactly 1, and the traffic branch and the highway branch give the same value
  there; so for a route whose average speed is the optimal speed, the factor computed
  and the factor returned are 1.
\<close>

theorem efficiency_at_optimalSpeed:
  "trafficFactor (Num (optimalSpeed v)) (Num (optimalSpeed v)) = Num 1 \<and>
   highwayFactor (Num (optimalSpeed v)) (Num (optimalSpeed v)) = Num 1 \<and>
   efficiency (Own v) (Num (optimalSpeed v)) = Num 1 \<and>
   (avgSpeed_of route = Num (optimalSpeed v) \<longrightarrow>
      efficiency (Own v) (avgSpeed_of route) = Num 1 \<and>
      (vehicle_for vehicleType = Own v \<longrightarrow>
         efficiencyFactor (calculateFuel route vehicleType) = Num 1))"
proof -
  have t: "trafficFactor (Num (optimalSpeed v)) (Num (optimalSpeed v)) = Num 1"
    by (simp add: trafficFactor_def js_sub_def)
  have h: "highwayFactor (Num (optimalSpeed v)) (Num (optimalSpeed v)) = Num 1"
    by (simp add: highwayFactor_def js_sub_def)
  have e: "efficiency (Own v) (Num (optimalSpeed v)) = Num 1"
    by (simp add: efficiency_def h)
  have r: "round_at 2 1 = 1"
    by (simp add: round_at_def floor_rat_numeral)
  have c: "efficiencyFactor (calculateFuel route vehicleType) = Num 1"
    if "avgSpeed_of route = Num (optimalSpeed v)" "vehicle_for vehicleType = Own v"
    using that e r by (simp add: calculateFuel_def parseFloat_toFixed del: toFixed.simps)
  show ?thesis using t h e c by simp
qed

theorem efficiency_at_optimalSpeed_witness:
  "avgSpeed_of \<lparr>distance = 80000, duration = 3600, geometry = ()\<rparr> = Num (optimalSpeed car) \<and>
   vehicle_for ''car'' = Own car \<and>
   efficiency (Own car) (avgSpeed_of \<lparr>distance = 80000, duration = 3600, geometry = ()\<rparr>) = Num 1 \<and>
   efficiencyFactor (calculateFuel \<lparr>distance = 80000, duration = 3600, geometry = ()\<rparr> ''car'') = Num 1"
proof -
  have a: "avgSpeed_of \<lparr>distance = 80000, duration = 3600, geometry = ()\<rparr> = Num (optimalSpeed car)"
    by (simp add: avgSpeed_of_Num speed_q_def car_def)
  show ?thesis
    using a vehicle_for_car
      efficiency_at_optimalSpeed [of car "\<lparr>distance = 80000, duration = 3600, geometry = ()\<rparr>" "''car''"]
    by simp
qed

text \<open>
  In exact arithmetic the two formulas are strict: the factor falls strictly as the speed
  rises towards the optimal speed and rises strictly beyond it. This is the curve the
  program approximates; the program computes in binary64, where the strictness is lost.
\<close>

lemma efficiency_exact_strict:
  "(s1 < s2 \<and> s2 \<le> optimalSpeed v \<longrightarrow>
      js_lt (efficiency (Own v) (Num s2)) (efficiency (Own v) (Num s1))) \<and>
   (optimalSpeed v \<le> s1 \<and> s1 < s2 \<longrightarrow>
      js_lt (efficiency (Own v) (Num s1)) (efficiency (Own v) (Num s2)))"
  by (auto simp: efficiency_Own eff_q_def)




section \<open>The fields of a processed route\<close>

lemma read_processRoute:
  "read (processRoute vt fp (i, r)) ''id'' = JNum (Num (of_nat i))"
  "read (processRoute vt fp (i, r)) ''geometry'' = JOpaque (geometry r)"
  "read (processRoute vt fp (i, r)) ''distanceKm'' = JStr (toFixed 1 (Num (distance r / 1000)))"
  "read (processRoute vt fp (i, r)) ''durationMin'' = JStr (toFixed 0 (Num (duration r / 60)))"
  "read (processRoute vt fp (i, r)) ''fuelUsedLiters'' = JNum (fuelUsed (calculateFuel r vt))"
  "read (processRoute vt fp (i, r)) ''fuelCost'' =
     JStr (toFixed 0 (js_mul (fuelUsed (calculateFuel r vt)) (price_or_zero fp)))"
  "read (processRoute vt fp (i, r)) ''avgSpeed'' = JNum (avgSpeed (calculateFuel r vt))"
  "read (processRoute vt fp (i, r)) ''isFastest'' = JBool (i = 0)"
  "read (processRoute vt fp (i, r)) ''score'' = JNum (fuelUsed (calculateFuel r vt))"
  "read (processRoute vt fp (i, r)) ''efficiencyFactor'' = JUndefined"
  by (simp_all add: read_def get_prop_def processRoute_def Let_def Object_prototype_def
      del: toFixed.simps)

lemma round_at_error: "\<bar>round_at f a - a\<bar> \<le> 1 / (2 * 10 ^ f)"
proof -
  have near: "\<bar>of_int \<lfloor>y * 10 ^ f + 1 / 2\<rfloor> / 10 ^ f - y\<bar> \<le> 1 / (2 * 10 ^ f)" for y :: rat
  proof -
    define p :: rat where "p = 10 ^ f"
    have p: "0 < p" by (simp add: p_def)
    define n :: rat where "n = of_int \<lfloor>y * p + 1 / 2\<rfloor>"
    have "n \<le> y * p + 1 / 2" "y * p + 1 / 2 < n + 1"
      unfolding n_def by linarith+
    then have le: "\<bar>n - y * p\<bar> \<le> 1 / 2" by linarith
    have "n / p - y = (n - y * p) / p"
      using p by (simp add: field_simps)
    then have "\<bar>n / p - y\<bar> = \<bar>n - y * p\<bar> / p"
      using p by simp
    moreover have "\<bar>n - y * p\<bar> / p \<le> (1 / 2) / p"
      using le p by (intro divide_right_mono) simp_all
    ultimately show ?thesis by (simp add: p_def n_def)
  qed
  show ?thesis
  proof (cases "a < 0")
    case True
    have "\<bar>round_at f a - a\<bar> = \<bar>of_int \<lfloor>- a * 10 ^ f + 1 / 2\<rfloor> / 10 ^ f - (- a)\<bar>"
      using True by (simp add: round_at_def abs_minus_commute [of _ "a"] add.commute)
    then show ?thesis using near [of "- a"] by simp
  next
    case False
    then show ?thesis using near [of a] by (simp add: round_at_def)
  qed
qed

lemma Math_round_error: "\<bar>of_int \<lfloor>s + 1 / 2\<rfloor> - s\<bar> \<le> 1 / (2 :: rat)"
  by linarith

lemma parseFloat_toFixed_any:
  "parseFloat (toFixed f x) = (case x of Num a \<Rightarrow> Num (round_at f a) | y \<Rightarrow> y)"
  by (cases x) (simp_all add: parseFloat_toFixed parseFloat_toFixed_NaN parseFloat_toFixed_Inf
      del: toFixed.simps)

lemma vehicle_for_constructor: "vehicle_for ''constructor'' = Inherited ''constructor''"
  by (simp add: vehicle_for_cases Object_prototype_def)

lemma is_decimal_int:
  assumes ip: "ip \<noteq> []" "\<forall>c\<in>set ip. is_digit c"
  shows "is_decimal ip" and "is_decimal (CHR ''-'' # ip)"
proof -
  obtain c r where c: "ip = c # r" using ip(1) by (cases ip) auto
  with ip(2) have d: "is_digit c" and r: "\<And>x. x \<in> set r \<Longrightarrow> is_digit x" by simp_all
  note ns = digit_not_special [OF d]
  have tr: "takeWhile is_digit r = r" "dropWhile is_digit r = []" using r by simp_all
  show "is_decimal ip" using ns d by (simp add: is_decimal_def c Let_def tr)
  show "is_decimal (CHR ''-'' # ip)" using ns d by (simp add: is_decimal_def c Let_def tr)
qed

lemma is_decimal_frac:
  assumes ip: "ip \<noteq> []" "\<forall>c\<in>set ip. is_digit c" and fp: "fp \<noteq> []" "\<forall>c\<in>set fp. is_digit c"
  shows "is_decimal (ip @ CHR ''.'' # fp)" and "is_decimal (CHR ''-'' # ip @ CHR ''.'' # fp)"
proof -
  obtain c r where c: "ip = c # r" using ip(1) by (cases ip) auto
  with ip(2) have d: "is_digit c" and r: "\<And>x. x \<in> set r \<Longrightarrow> is_digit x" by simp_all
  note ns = digit_not_special [OF d]
  have tr: "takeWhile is_digit (r @ CHR ''.'' # fp) = r" "dropWhile is_digit (r @ CHR ''.'' # fp) = CHR ''.'' # fp"
    using r by (simp_all add: takeWhile_append2 dropWhile_append2 not_digit_point)
  show "is_decimal (ip @ CHR ''.'' # fp)"
    using ns d fp by (simp add: is_decimal_def c Let_def tr list_all_iff)
  show "is_decimal (CHR ''-'' # ip @ CHR ''.'' # fp)"
    using ns d fp by (simp add: is_decimal_def c Let_def tr list_all_iff)
qed

lemma is_decimal_fixed_digits:
  "is_decimal (fixed_digits f y)" "is_decimal (CHR ''-'' # fixed_digits f y)"
proof -
  have "is_decimal (fixed_digits f y) \<and> is_decimal (CHR ''-'' # fixed_digits f y)"
  proof (cases "f = 0")
    case True
    then show ?thesis
      using is_decimal_int [OF dec_str_nonempty, of "nat \<lfloor>y + 1 / 2\<rfloor>"]
      by (simp add: fixed_digits_zero dec_str_digits)
  next
    case False
    then obtain ip fp where s: "fixed_digits f y = ip @ CHR ''.'' # fp" "ip \<noteq> []"
      "\<forall>c\<in>set ip. is_digit c" "\<forall>c\<in>set fp. is_digit c" "length fp = f"
      "dec_val (ip @ fp) = nat \<lfloor>y * 10 ^ f + 1 / 2\<rfloor>"
      using fixed_digits_shape [of f y] by auto
    have "fp \<noteq> []" using s(5) False by auto
    then show ?thesis using is_decimal_frac [OF s(2,3) _ s(4)] s(1) by simp
  qed
  then show "is_decimal (fixed_digits f y)" "is_decimal (CHR ''-'' # fixed_digits f y)" by simp_all
qed

text \<open>
  What \<open>toFixed\<close> prints for a finite number below \<open>10^21\<close> is a decimal string; what it
  prints for NaN, for an infinity, and from \<open>10^21\<close> on is not.
\<close>

lemma is_decimal_toFixed64: "\<bar>a\<bar> < 10 ^ 21 \<Longrightarrow> is_decimal (toFixed64 f (Num a))"
  using is_decimal_fixed_digits [of f a] is_decimal_fixed_digits [of f "- a"]
  by (cases "a < 0") (simp_all add: fixed64_def)

lemma not_decimal_special:
  "\<not> is_decimal (toFixed64 f NaN)" "\<not> is_decimal (toFixed64 f PosInf)"
  "\<not> is_decimal (toFixed64 f NegInf)" "\<not> is_decimal ''1e+22''"
  by (simp_all add: is_decimal_def is_digit_def)

lemma parseInt_int:
  assumes ip: "ip \<noteq> []" "\<forall>c\<in>set ip. is_digit c"
  shows "parseInt ip = Num (of_nat (dec_val ip))"
    and "parseInt (CHR ''-'' # ip) = Num (- of_nat (dec_val ip))"
proof -
  obtain c r where c: "ip = c # r" using ip(1) by (cases ip) auto
  with ip(2) have d: "is_digit c" and r: "\<And>x. x \<in> set r \<Longrightarrow> is_digit x" by simp_all
  note ns = digit_not_special [OF d]
  have tr: "takeWhile is_digit r = r" using r by simp
  show "parseInt ip = Num (of_nat (dec_val ip))"
    using ns d by (simp add: parseInt_def c Let_def tr)
  show "parseInt (CHR ''-'' # ip) = Num (- of_nat (dec_val ip))"
    using ns d by (simp add: parseInt_def c Let_def tr)
qed

lemma parseInt_toFixed_0:
  "parseInt (toFixed 0 x) = (case x of Num a \<Rightarrow> Num (round_at 0 a) | y \<Rightarrow> NaN)"
proof (cases x)
  case (Num a)
  have cast: "rat_of_nat (nat \<lfloor>y + 1 / 2\<rfloor>) = of_int \<lfloor>y + 1 / 2\<rfloor>" if "0 \<le> y" for y :: rat
  proof -
    have "0 \<le> \<lfloor>y + 1 / 2\<rfloor>" using that by simp
    then show ?thesis by simp
  qed
  show ?thesis
  proof (cases "a < 0")
    case True
    then show ?thesis
      using parseInt_int(2) [OF dec_str_nonempty, of "nat \<lfloor>- a + 1 / 2\<rfloor>"] cast [of "- a"] Num
      by (simp add: fixed_digits_zero dec_str_digits dec_val_dec_str round_at_def)
  next
    case False
    then show ?thesis
      using parseInt_int(1) [OF dec_str_nonempty, of "nat \<lfloor>a + 1 / 2\<rfloor>"] cast [of a] Num
      by (simp add: fixed_digits_zero dec_str_digits dec_val_dec_str round_at_def)
  qed
qed (simp_all add: parseInt_def is_digit_def)

section \<open>The worked example\<close>

text \<open>
  Claim C2, as amended. For the route of 100000 m and 3600 s, category \<open>car\<close> and a
  fuel price of 25000: the average speed is 100, the efficiency factor is
  \<open>1 + (20/30) * 0.1\<close> (1.0667 to four decimals; 1.07 as returned), the fuel used is
  7.47 after rounding to two decimals, and the fuel cost is the rounded fuel figure times
  the price, \<open>7.47 * 25000 = 186750\<close>, printed as \<open>186750\<close>.
\<close>

theorem car_example_figures:
  "avgSpeed_of \<lparr>distance = 100000, duration = 3600, geometry = ()\<rparr> = Num 100 \<and>
   efficiency (vehicle_for ''car'') (avgSpeed_of \<lparr>distance = 100000, duration = 3600, geometry = ()\<rparr>) =
     Num (1 + (20 / 30) * (1 / 10)) \<and>
   \<bar>(1 + (20 / 30) * (1 / 10)) - (10667 / 10000 :: rat)\<bar> < 1 / 10000 \<and>
   rawFuelUsed (vehicle_for ''car'') \<lparr>distance = 100000, duration = 3600, geometry = ()\<rparr> =
     Num (100000 / 1000 / 100 * 7 * (1 + (20 / 30) * (1 / 10))) \<and>
   calculateFuel \<lparr>distance = 100000, duration = 3600, geometry = ()\<rparr> ''car'' =
     \<lparr>fuelUsed = Num (747 / 100), avgSpeed = Num 100, efficiencyFactor = Num (107 / 100)\<rparr> \<and>
   read (processRoute ''car'' (Some 25000)
      (0, \<lparr>distance = 100000, duration = 3600, geometry = ()\<rparr>)) ''fuelUsedLiters'' =
     JNum (Num (747 / 100)) \<and>
   read (processRoute ''car'' (Some 25000)
      (0, \<lparr>distance = 100000, duration = 3600, geometry = ()\<rparr>)) ''fuelCost'' = JStr ''186750'' \<and>
   (747 / 100 :: rat) * 25000 = 186750"
proof -
  let ?r = "\<lparr>distance = 100000, duration = 3600, geometry = ()\<rparr>"
  have s: "avgSpeed_of ?r = Num 100"
    by (simp add: avgSpeed_of_Num speed_q_def)
  have e: "efficiency (vehicle_for ''car'') (avgSpeed_of ?r) = Num (1 + (20 / 30) * (1 / 10))"
    by (simp add: s vehicle_for_car efficiency_Own eff_q_def car_def)
  have f: "rawFuelUsed (vehicle_for ''car'') ?r = Num (100000 / 1000 / 100 * 7 * (1 + (20 / 30) * (1 / 10)))"
    by (simp add: vehicle_for_car rawFuelUsed_Own fuel_q_def eff_q_def speed_q_def car_def)
  have c: "calculateFuel ?r ''car'' =
     \<lparr>fuelUsed = Num (747 / 100), avgSpeed = Num 100, efficiencyFactor = Num (107 / 100)\<rparr>"
    by (simp add: calculateFuel_Own [OF vehicle_for_car] fuel_q_def eff_q_def speed_q_def car_def
        round_at_def floor_rat_numeral)
  have l: "read (processRoute ''car'' (Some 25000) (0, ?r)) ''fuelUsedLiters'' = JNum (Num (747 / 100))"
    by (simp add: read_processRoute c)
  have p: "read (processRoute ''car'' (Some 25000) (0, ?r)) ''fuelCost'' = JStr ''186750''"
    by (simp add: read_processRoute c price_or_zero_def toFixed_eval)
  show ?thesis using s e f c l p by simp
qed

text \<open>
  The figure 186667 of the claim is the unrounded fuel volume times the price; the code
  multiplies the rounded one.
\<close>

theorem car_example_fuelCost_counterexample:
  "read (processRoute ''car'' (Some 25000)
      (0, \<lparr>distance = 100000, duration = 3600, geometry = ()\<rparr>)) ''fuelCost'' = JStr ''186750'' \<and>
   read (processRoute ''car'' (Some 25000)
      (0, \<lparr>distance = 100000, duration = 3600, geometry = ()\<rparr>)) ''fuelCost'' \<noteq> JStr ''186667''"
  by (simp add: read_processRoute(6) car_eval price_or_zero_def toFixed_eval)

section \<open>A route of zero duration\<close>

text \<open>
  With a vehicle profile, a route of zero duration gets the average speed 0 and finite
  figures; the division that the guard avoids would not be finite.
\<close>

lemma zero_duration_profile:
  assumes "duration route = 0" and "vehicle_for vt = Own v"
  shows "avgSpeed_of route = Num 0"
    and "avgSpeed (calculateFuel route vt) = Num 0"
    and "finite_num (fuelUsed (calculateFuel route vt))"
    and "finite_num (efficiencyFactor (calculateFuel route vt))"
  using assms by (simp_all add: avgSpeed_of_Num speed_q_def calculateFuel_Own floor_rat_one_numeral)

lemma division_by_zero_not_finite: "\<not> finite_num (js_div (Num a) (Num 0))"
  by (simp add: signed_inf_def)

text \<open>
  Claim C5 at the category \<open>constructor\<close>: the average speed of a route of zero
  duration is 0, but the fuel used and the efficiency factor are NaN, because the vehicle
  read from \<open>VEHICLES\<close> is an inherited member and not a profile.
\<close>

theorem zero_duration_inherited_category:
  "avgSpeed_of \<lparr>distance = 1000, duration = 0, geometry = ()\<rparr> = Num 0 \<and>
   calculateFuel \<lparr>distance = 1000, duration = 0, geometry = ()\<rparr> ''constructor'' =
     \<lparr>fuelUsed = NaN, avgSpeed = Num 0, efficiencyFactor = NaN\<rparr>"
  by (simp add: calculateFuel_Inherited [OF vehicle_for_constructor] avgSpeed_of_Num speed_q_def
      floor_rat_one_numeral)

section \<open>Resolving the vehicle category\<close>

text \<open>
  The three keys give the published parameters, and a string that is neither a key nor a
  member of \<open>Object.prototype\<close> gives the car profile.
\<close>

lemma vehicle_for_registry:
  "vehicle_for ''motorbike'' = Own \<lparr>baseConsumption = 5 / 2, optimalSpeed = 50, dragFactor = 1 / 20\<rparr>"
  "vehicle_for ''car'' = Own \<lparr>baseConsumption = 7, optimalSpeed = 80, dragFactor = 1 / 10\<rparr>"
  "vehicle_for ''truck'' = Own \<lparr>baseConsumption = 15, optimalSpeed = 70, dragFactor = 1 / 5\<rparr>"
  "k \<notin> set Object_prototype \<Longrightarrow> k \<noteq> ''motorbike'' \<Longrightarrow> k \<noteq> ''car'' \<Longrightarrow> k \<noteq> ''truck'' \<Longrightarrow>
     vehicle_for k = vehicle_for ''car''"
  "vehicle_for '''' = vehicle_for ''car''"
  by (simp_all add: vehicle_for_cases motorbike_def car_def truck_def Object_prototype_def)

text \<open>
  Claim C6 at the category \<open>constructor\<close>: the lookup finds the inherited member, which
  is truthy, so the fallback to the car profile is not taken; the optimal speed and the
  base consumption read from it are undefined, and the fuel used is NaN where the car
  profile gives 7.47.
\<close>

theorem inherited_category_is_not_car:
  "get_prop VEHICLES ''constructor'' = Inherited ''constructor'' \<and>
   vehicle_for ''constructor'' \<noteq> Own car \<and>
   optimalSpeed_of (vehicle_for ''constructor'') = NaN \<and>
   baseConsumption_of (vehicle_for ''constructor'') = NaN \<and>
   fuelUsed (calculateFuel \<lparr>distance = 100000, duration = 3600, geometry = ()\<rparr> ''constructor'') = NaN \<and>
   fuelUsed (calculateFuel \<lparr>distance = 100000, duration = 3600, geometry = ()\<rparr> ''car'') = Num (747 / 100)"
  by (simp add: get_prop_VEHICLES Object_prototype_def vehicle_for_constructor
      fuelUsed_Inherited [OF vehicle_for_constructor] car_eval)

section \<open>No routes\<close>

text \<open>
  Claim C8, as amended. For an empty list of routes, and for an answer with no list of
  routes, the endpoint answers 404 \<open>No route found\<close>: no list of routes and no best id
  is returned. The ranking code is not reached; on an empty list it throws.
\<close>

theorem empty_routes_not_found:
  "calculate_route (Some []) vt fp = JsonError 404 ''No route found'' \<and>
   calculate_route None vt fp = JsonError 404 ''No route found'' \<and>
   rank_routes vt fp [] = Inl TypeError"
  by (simp add: calculate_route_def rank_routes_eq processedRoutes_of_def js_sort_Nil)

text \<open>The empty list does not give an empty ranked list with an undefined best id.\<close>

theorem empty_routes_counterexample:
  "calculate_route (Some ([] :: unit route list)) ''car'' (Some 25000) = JsonError 404 ''No route found'' \<and>
   calculate_route (Some ([] :: unit route list)) ''car'' (Some 25000) \<noteq> Json200 [] JUndefined \<and>
   rank_routes ''car'' (Some 25000) ([] :: unit route list) = Inl TypeError"
  by (simp add: calculate_route_def rank_routes_eq processedRoutes_of_def js_sort_Nil)

section \<open>Display fields\<close>

text \<open>
  The display fields are rounded from the binary64 quotients, not from the exact ones.
  A route of 150 m is 0.15 km, but the binary64 quotient is just below it and the field
  reads \<open>0.1\<close>; 8360 m in 608 s is 49.5 km/h, but the binary64 speed is just below it
  and the field is 49. From \<open>10^21\<close> on, \<open>toFixed\<close> prints exponent notation.
\<close>

lemma display_fields_examples:
  "read (processRoute64 ''car'' None (0, \<lparr>distance = 150, duration = 60, geometry = ()\<rparr>)) ''distanceKm'' =
     JStr ''0.1''"
  "toFixed 1 (Num (150 / 1000)) = ''0.2''"
  "read (processRoute64 ''car'' None (0, \<lparr>distance = 8360, duration = 608, geometry = ()\<rparr>)) ''avgSpeed'' =
     JNum (Num 49)"
  "Math_round (Num (8360 / 1000 / (608 / 3600))) = Num 50"
  "read (processRoute64 ''car'' None (0, \<lparr>distance = 10 ^ 25, duration = 60, geometry = ()\<rparr>)) ''distanceKm'' =
     JStr ''1e+22''"
  by (simp_all add: read_processRoute64 avgSpeed64_eval toFixed64_eval)

text \<open>
  Claim C9, as amended. A processed route carries three display fields. \<open>distanceKm\<close>
  is what \<open>toFixed(1)\<close> prints for the binary64 quotient of the distance by 1000, and
  \<open>durationMin\<close> what \<open>toFixed(0)\<close> prints for the binary64 quotient of the duration
  by 60: for a quotient below \<open>10^21\<close> in magnitude, the decimal nearest to it with one
  decimal, respectively the nearest integer, a tie going away from zero. \<open>avgSpeed\<close> is
  the integer nearest to the binary64 average speed, a tie going up. The route has no
  \<open>efficiencyFactor\<close> property: the factor rounded to two decimals is part of the result
  of \<open>calculateFuel\<close> only.
\<close>

theorem display_fields_binary64:
  "read (processRoute64 vt fp (i, r)) ''distanceKm'' =
     JStr (toFixed64 1 (div64 (fl (distance r)) (Num 1000))) \<and>
   read (processRoute64 vt fp (i, r)) ''durationMin'' =
     JStr (toFixed64 0 (div64 (fl (duration r)) (Num 60))) \<and>
   read (processRoute64 vt fp (i, r)) ''avgSpeed'' = JNum (Math_round (avgSpeed64 r)) \<and>
   read (processRoute64 vt fp (i, r)) ''efficiencyFactor'' = JUndefined \<and>
   (\<forall>a. div64 (fl (distance r)) (Num 1000) = Num a \<and> \<bar>a\<bar> < 10 ^ 21 \<longrightarrow>
      parseFloat (toFixed64 1 (div64 (fl (distance r)) (Num 1000))) = Num (round_at 1 a) \<and>
      \<bar>round_at 1 a - a\<bar> \<le> 1 / 20) \<and>
   (\<forall>b. div64 (fl (duration r)) (Num 60) = Num b \<and> \<bar>b\<bar> < 10 ^ 21 \<longrightarrow>
      parseFloat (toFixed64 0 (div64 (fl (duration r)) (Num 60))) = Num (round_at 0 b) \<and>
      round_at 0 b \<in> \<int> \<and> \<bar>round_at 0 b - b\<bar> \<le> 1 / 2) \<and>
   (\<forall>s. avgSpeed64 r = Num s \<longrightarrow>
      Math_round (avgSpeed64 r) = Num (of_int \<lfloor>s + 1 / 2\<rfloor>) \<and>
      \<bar>of_int \<lfloor>s + 1 / 2\<rfloor> - s\<bar> \<le> 1 / 2) \<and>
   (\<forall>v e. vehicle_for vt = Own v \<and> efficiency64 (Own v) (avgSpeed64 r) = Num e \<and> \<bar>e\<bar> < 10 ^ 21 \<longrightarrow>
      efficiencyFactor (calculateFuel64 r vt) = fl (round_at 2 e) \<and>
      \<bar>round_at 2 e - e\<bar> \<le> 1 / 200)"
proof -
  have d: "parseFloat (toFixed64 1 (div64 (fl (distance r)) (Num 1000))) = Num (round_at 1 a) \<and>
      \<bar>round_at 1 a - a\<bar> \<le> 1 / 20"
    if "div64 (fl (distance r)) (Num 1000) = Num a" "\<bar>a\<bar> < 10 ^ 21" for a
    using that round_at_error [of 1 a]
    by (simp add: toFixed64_toFixed parseFloat_toFixed del: toFixed.simps toFixed64.simps)
  have m: "parseFloat (toFixed64 0 (div64 (fl (duration r)) (Num 60))) = Num (round_at 0 b) \<and>
      round_at 0 b \<in> \<int> \<and> \<bar>round_at 0 b - b\<bar> \<le> 1 / 2"
    if "div64 (fl (duration r)) (Num 60) = Num b" "\<bar>b\<bar> < 10 ^ 21" for b
  proof -
    have "round_at 0 b \<in> \<int>" by (simp add: round_at_def)
    then show ?thesis
      using that round_at_error [of 0 b]
      by (simp add: toFixed64_toFixed parseFloat_toFixed del: toFixed.simps toFixed64.simps)
  qed
  have a: "Math_round (avgSpeed64 r) = Num (of_int \<lfloor>s + 1 / 2\<rfloor>) \<and>
      \<bar>of_int \<lfloor>s + 1 / 2\<rfloor> - s\<bar> \<le> 1 / 2"
    if "avgSpeed64 r = Num s" for s
    using that Math_round_error [of s] by simp
  have e: "efficiencyFactor (calculateFuel64 r vt) = fl (round_at 2 e) \<and> \<bar>round_at 2 e - e\<bar> \<le> 1 / 200"
    if "vehicle_for vt = Own v" "efficiency64 (Own v) (avgSpeed64 r) = Num e" "\<bar>e\<bar> < 10 ^ 21" for v e
    using calculateFuel64_Own(1) [OF that] round_at_error [of 2 e] by simp
  have f: "read (processRoute64 vt fp (i, r)) ''distanceKm'' =
       JStr (toFixed64 1 (div64 (fl (distance r)) (Num 1000)))"
    "read (processRoute64 vt fp (i, r)) ''durationMin'' =
       JStr (toFixed64 0 (div64 (fl (duration r)) (Num 60)))"
    "read (processRoute64 vt fp (i, r)) ''avgSpeed'' = JNum (Math_round (avgSpeed64 r))"
    "read (processRoute64 vt fp (i, r)) ''efficiencyFactor'' = JUndefined"
    by (simp_all add: read_processRoute64 distanceKm64_def del: toFixed64.simps)
  show ?thesis
    using d m a e f by blast
qed

theorem display_fields_binary64_witness:
  "div64 (fl 8360) (Num 1000) = Num (588282701325271 / 70368744177664) \<and>
   \<bar>588282701325271 / 70368744177664 :: rat\<bar> < 10 ^ 21 \<and>
   parseFloat (toFixed64 1 (div64 (fl 8360) (Num 1000))) = Num (round_at 1 (588282701325271 / 70368744177664)) \<and>
   round_at 1 (588282701325271 / 70368744177664) = 42 / 5 \<and>
   div64 (fl 608) (Num 60) = Num (1426139882000657 / 140737488355328) \<and>
   \<bar>1426139882000657 / 140737488355328 :: rat\<bar> < 10 ^ 21 \<and>
   parseFloat (toFixed64 0 (div64 (fl 608) (Num 60))) = Num (round_at 0 (1426139882000657 / 140737488355328)) \<and>
   round_at 0 (1426139882000657 / 140737488355328) = 10 \<and>
   avgSpeed64 \<lparr>distance = 8360, duration = 608, geometry = ()\<rparr> = Num (6966505673588735 / 140737488355328) \<and>
   Math_round (avgSpeed64 \<lparr>distance = 8360, duration = 608, geometry = ()\<rparr>) = Num 49 \<and>
   vehicle_for ''car'' = Own car \<and>
   efficiency64 (Own car) (avgSpeed64 \<lparr>distance = 8360, duration = 608, geometry = ()\<rparr>) =
     Num (2938598756859249 / 2251799813685248) \<and>
   \<bar>2938598756859249 / 2251799813685248 :: rat\<bar> < 10 ^ 21 \<and>
   efficiencyFactor (calculateFuel64 \<lparr>distance = 8360, duration = 608, geometry = ()\<rparr> ''car'') =
     fl (round_at 2 (2938598756859249 / 2251799813685248)) \<and>
   round_at 2 (2938598756859249 / 2251799813685248) = 131 / 100"
proof -
  let ?r = "\<lparr>distance = 8360, duration = 608, geometry = ()\<rparr>"
  have q: "div64 (fl 8360) (Num 1000) = Num (588282701325271 / 70368744177664)"
    "div64 (fl 608) (Num 60) = Num (1426139882000657 / 140737488355328)"
    by (simp_all add: op64_eval fl_eval)
  have s: "avgSpeed64 ?r = Num (6966505673588735 / 140737488355328)"
    by (simp add: avgSpeed64_eval)
  have e: "efficiency64 (Own car) (avgSpeed64 ?r) = Num (2938598756859249 / 2251799813685248)"
    by (simp add: s eff64_eval)
  have b: "\<bar>588282701325271 / 70368744177664 :: rat\<bar> < 10 ^ 21"
    "\<bar>1426139882000657 / 140737488355328 :: rat\<bar> < 10 ^ 21"
    "\<bar>2938598756859249 / 2251799813685248 :: rat\<bar> < 10 ^ 21"
    by simp_all
  have v: "round_at 1 (588282701325271 / 70368744177664) = 42 / 5"
    "round_at 0 (1426139882000657 / 140737488355328) = 10"
    "round_at 2 (2938598756859249 / 2251799813685248) = 131 / 100"
    "\<lfloor>6966505673588735 / 140737488355328 + 1 / 2 :: rat\<rfloor> = 49"
    by (simp_all add: round_at_def floor_rat_numeral)
  note t = display_fields_binary64 [of "''car''" None 0 ?r]
  have t1: "parseFloat (toFixed64 1 (div64 (fl 8360) (Num 1000))) = Num (round_at 1 (588282701325271 / 70368744177664))"
    using t q(1) b(1) by (simp del: toFixed64.simps)
  have t2: "parseFloat (toFixed64 0 (div64 (fl 608) (Num 60))) = Num (round_at 0 (1426139882000657 / 140737488355328))"
    using t q(2) b(2) by (simp del: toFixed64.simps)
  have t3: "Math_round (avgSpeed64 ?r) = Num 49"
    using t s v(4) by simp
  have t4: "efficiencyFactor (calculateFuel64 ?r ''car'') = fl (round_at 2 (2938598756859249 / 2251799813685248))"
    using t vehicle_for_car e b(3) by blast
  show ?thesis using q s e b v(1,2,3) t1 t2 t3 t4 vehicle_for_car by blast
qed

text \<open>
  A processed route has no \<open>efficiencyFactor\<close>, though \<open>calculateFuel\<close> returned one;
  in exact arithmetic and in binary64 alike.
\<close>

theorem efficiencyFactor_not_in_route_counterexample:
  "read (processRoute ''car'' (Some 25000)
      (0, \<lparr>distance = 100000, duration = 3600, geometry = ()\<rparr>)) ''efficiencyFactor'' = JUndefined \<and>
   efficiencyFactor (calculateFuel \<lparr>distance = 100000, duration = 3600, geometry = ()\<rparr> ''car'') =
     Num (107 / 100) \<and>
   read (processRoute64 ''car'' (Some 25000)
      (0, \<lparr>distance = 100000, duration = 3600, geometry = ()\<rparr>)) ''efficiencyFactor'' = JUndefined \<and>
   efficiencyFactor (calculateFuel64 \<lparr>distance = 100000, duration = 3600, geometry = ()\<rparr> ''car'') =
     fl (107 / 100)"
  using car_example_binary64(4)
  by (simp add: read_processRoute(10) read_processRoute64(10) calculateFuel_Own [OF vehicle_for_car]
      eff_q_def speed_q_def car_def round_at_def floor_rat_numeral)

section \<open>Strings and numbers in a processed route\<close>

text \<open>
  The types of the six fields, and what holds of the three strings while the category
  resolves to a profile and the numbers are finite and below \<open>10^21\<close>.
\<close>

lemma field_types:
  "typeof (read (processRoute64 vt fp (i, r)) ''distanceKm'') = ''string''"
  "typeof (read (processRoute64 vt fp (i, r)) ''durationMin'') = ''string''"
  "typeof (read (processRoute64 vt fp (i, r)) ''fuelCost'') = ''string''"
  "typeof (read (processRoute64 vt fp (i, r)) ''fuelUsedLiters'') = ''number''"
  "typeof (read (processRoute64 vt fp (i, r)) ''avgSpeed'') = ''number''"
  "typeof (read (processRoute64 vt fp (i, r)) ''score'') = ''number''"
  "read (processRoute64 vt fp (i, r)) ''score'' = read (processRoute64 vt fp (i, r)) ''fuelUsedLiters''"
  by (simp_all add: read_processRoute64 del: toFixed64.simps)

lemma decimal_fields:
  "div64 (fl (distance r)) (Num 1000) = Num a \<Longrightarrow> \<bar>a\<bar> < 10 ^ 21 \<Longrightarrow>
     \<exists>s. read (processRoute64 vt fp (i, r)) ''distanceKm'' = JStr s \<and> is_decimal s"
  "div64 (fl (duration r)) (Num 60) = Num b \<Longrightarrow> \<bar>b\<bar> < 10 ^ 21 \<Longrightarrow>
     \<exists>s. read (processRoute64 vt fp (i, r)) ''durationMin'' = JStr s \<and> is_decimal s"
  "mul64 (fuelUsed (calculateFuel64 r vt)) (price64 fp) = Num c \<Longrightarrow> \<bar>c\<bar> < 10 ^ 21 \<Longrightarrow>
     \<exists>s. read (processRoute64 vt fp (i, r)) ''fuelCost'' = JStr s \<and> is_decimal s"
  using is_decimal_toFixed64
  by (simp_all add: read_processRoute64 distanceKm64_def del: toFixed64.simps)

text \<open>
  Claim C10 at the category \<open>constructor\<close>: the vehicle read from \<open>VEHICLES\<close> is an
  inherited member, the fuel used is NaN, and so is the cost; \<open>fuelCost\<close> is the string
  \<open>NaN\<close>, which is not a decimal string and which \<open>parseFloat\<close> and the \<open>parseInt\<close>
  of the page read as NaN, and \<open>fuelUsedLiters\<close> and \<open>score\<close> are NaN. With the car
  profile the same request gives the decimal string \<open>186750\<close>.
\<close>

theorem inherited_category_fuelCost_NaN:
  "read (processRoute64 ''constructor'' (Some 25000)
     (0, \<lparr>distance = 100000, duration = 3600, geometry = ()\<rparr>)) ''fuelCost'' = JStr ''NaN'' \<and>
   \<not> is_decimal ''NaN'' \<and>
   parseFloat64 ''NaN'' = NaN \<and>
   parseInt ''NaN'' = NaN \<and>
   read (processRoute64 ''constructor'' (Some 25000)
     (0, \<lparr>distance = 100000, duration = 3600, geometry = ()\<rparr>)) ''fuelUsedLiters'' = JNum NaN \<and>
   read (processRoute64 ''constructor'' (Some 25000)
     (0, \<lparr>distance = 100000, duration = 3600, geometry = ()\<rparr>)) ''score'' = JNum NaN \<and>
   read (processRoute64 ''car'' (Some 25000)
     (0, \<lparr>distance = 100000, duration = 3600, geometry = ()\<rparr>)) ''fuelCost'' = JStr ''186750'' \<and>
   is_decimal ''186750''"
proof -
  let ?r = "\<lparr>distance = 100000, duration = 3600, geometry = ()\<rparr>"
  have n: "fuelUsed (calculateFuel64 ?r ''constructor'') = NaN"
    by (rule calculateFuel64_Inherited [OF vehicle_for_constructor])
  have c: "read (processRoute64 ''constructor'' (Some 25000) (0, ?r)) ''fuelCost'' = JStr ''NaN''"
    by (simp add: read_processRoute64 n mul64_def)
  have p: "\<not> is_decimal ''NaN''" "parseFloat64 ''NaN'' = NaN" "parseInt ''NaN'' = NaN"
    "is_decimal ''186750''"
    by (simp_all add: is_decimal_def parseFloat64_def parseInt_def is_digit_def)
  show ?thesis
    using c p car_example_binary64(5) by (simp add: read_processRoute64 n)
qed

section \<open>The order of the returned routes\<close>

text \<open>Sorting the array of processed routes itself would reorder it.\<close>

lemma sort_in_place_reorders:
  "sort_at byFuel 0
     [processedRoutes_of ''car'' None [\<lparr>distance = 100000, duration = 3600, geometry = ()\<rparr>,
                                       \<lparr>distance = 90000, duration = 3600, geometry = ()\<rparr>]] ! 0 =
   [processRoute ''car'' None (1, \<lparr>distance = 90000, duration = 3600, geometry = ()\<rparr>),
    processRoute ''car'' None (0, \<lparr>distance = 100000, duration = 3600, geometry = ()\<rparr>)]"
  by (simp add: sort_at_def processedRoutes_of_def enumerate_eq_zip upt_rec js_sort_def car_eval)

text \<open>
  Claim C7. The list of routes in the response is the list of processed routes in input
  order: element \<open>i\<close> is made from input route \<open>i\<close> and has \<open>id = i\<close>. The sort
  runs on a second array, a copy, and the array of processed routes is the same after it.
\<close>

theorem routes_keep_input_order:
  "(case rank_store vt fp rs of (processedRoutes, sortedByFuel, h) \<Rightarrow>
      processedRoutes \<noteq> sortedByFuel \<and>
      h ! processedRoutes = processedRoutes_of vt fp rs \<and>
      h ! sortedByFuel = js_sort byFuel (processedRoutes_of vt fp rs)) \<and>
   length (processedRoutes_of vt fp rs) = length rs \<and>
   (\<forall>i<length rs.
      processedRoutes_of vt fp rs ! i = processRoute vt fp (i, rs ! i) \<and>
      read (processedRoutes_of vt fp rs ! i) ''id'' = JNum (Num (of_nat i))) \<and>
   (rs \<noteq> [] \<longrightarrow>
      (\<exists>best. calculate_route (Some rs) vt fp = Json200 (processedRoutes_of vt fp rs) best))"
  by (simp add: rank_store_eq length_processedRoutes_of nth_processedRoutes_of read_id
      calculate_route_nonempty)

theorem routes_keep_input_order_witness:
  "[\<lparr>distance = 100000, duration = 3600, geometry = ()\<rparr>,
    \<lparr>distance = 90000, duration = 3600, geometry = ()\<rparr>] \<noteq> [] \<and>
   (1 :: nat) < length [\<lparr>distance = 100000, duration = 3600, geometry = ()\<rparr>,
                       \<lparr>distance = 90000, duration = 3600, geometry = ()\<rparr>] \<and>
   routes (calculate_route (Some [\<lparr>distance = 100000, duration = 3600, geometry = ()\<rparr>,
                                  \<lparr>distance = 90000, duration = 3600, geometry = ()\<rparr>]) ''car'' None) =
     [processRoute ''car'' None (0, \<lparr>distance = 100000, duration = 3600, geometry = ()\<rparr>),
      processRoute ''car'' None (1, \<lparr>distance = 90000, duration = 3600, geometry = ()\<rparr>)] \<and>
   bestFuelRouteId (calculate_route (Some [\<lparr>distance = 100000, duration = 3600, geometry = ()\<rparr>,
                                  \<lparr>distance = 90000, duration = 3600, geometry = ()\<rparr>]) ''car'' None) =
     JNum (Num 1)"
proof -
  let ?rs = "[\<lparr>distance = 100000, duration = 3600, geometry = ()\<rparr>,
              \<lparr>distance = 90000, duration = 3600, geometry = ()\<rparr>]"
  have ne: "?rs \<noteq> []" and l: "(1 :: nat) < length ?rs" by simp_all
  have p: "processedRoutes_of ''car'' None ?rs =
     [processRoute ''car'' None (0, \<lparr>distance = 100000, duration = 3600, geometry = ()\<rparr>),
      processRoute ''car'' None (1, \<lparr>distance = 90000, duration = 3600, geometry = ()\<rparr>)]"
    by (simp add: processedRoutes_of_def enumerate_eq_zip upt_rec)
  have "\<exists>best. calculate_route (Some ?rs) ''car'' None =
      Json200 (processedRoutes_of ''car'' None ?rs) best"
    using routes_keep_input_order [of "''car''" None ?rs] ne by blast
  then have r: "routes (calculate_route (Some ?rs) ''car'' None) = processedRoutes_of ''car'' None ?rs"
    by auto
  have b: "bestFuelRouteId (calculate_route (Some ?rs) ''car'' None) = JNum (Num 1)"
    by (simp add: calculate_route_nonempty processedRoutes_of_def enumerate_eq_zip upt_rec
        js_sort_def car_eval)
  show ?thesis using ne l r p b by simp
qed

end
